theory Spec2Isabelle
  imports Main "HOL-Library.Word"
begin

section \<open>Shared notions\<close>

text \<open>
  A C function of the firmware either returns its \<open>bool\<close> result, or calls the
  \<open>noreturn\<close> function \<open>Abort(msg)\<close> (the process halts), or sits in a blocking
  user-interface call that the user never answers.
\<close>

datatype outcome = Returned bool | Aborted string | Blocked

text \<open>
  \<open>confirm_params_t\<close> of \<open>workflow/confirm.h\<close>: the fields the two source files set.
  A field a designated initialiser does not name is zero (\<open>False\<close>).
\<close>

record confirm_params_t =
  title :: string
  body :: string
  scrollable :: bool
  longtouch :: bool
  accept_is_nextarrow :: bool

text \<open>
  The user interface: the prompts presented so far, and the answers the user is going to
  give to the confirmation prompts, in order. \<open>workflow_confirm_blocking\<close> presents its
  prompt and blocks until the user answers; with no answer left it never returns (\<open>None\<close>).
\<close>

record ui_t =
  answers :: "bool list"
  shown :: "confirm_params_t list"

definition workflow_confirm_blocking :: "confirm_params_t \<Rightarrow> ui_t \<Rightarrow> bool option \<times> ui_t" where
  "workflow_confirm_blocking params ui =
     (case answers ui of
        [] \<Rightarrow> (None, ui\<lparr>shown := shown ui @ [params]\<rparr>)
      | a # as \<Rightarrow> (Some a, \<lparr>answers = as, shown = shown ui @ [params]\<rparr>))"

text \<open>The decimal digits \<open>snprintf\<close> writes for \<open>%lu\<close> and \<open>%d\<close> of a non-negative value.\<close>

definition digit_char :: "nat \<Rightarrow> char" where
  "digit_char d = ''0123456789'' ! d"

function dec :: "nat \<Rightarrow> string" where
  "dec n = (if n < 10 then [digit_char n] else dec (n div 10) @ [digit_char (n mod 10)])"
  by pat_completeness auto
termination
  by (relation "measure (\<lambda>n. n)") auto

declare dec.simps [simp del]

section \<open>\<open>src/apps/btc/confirm_multisig.c\<close>\<close>

subsection \<open>Data\<close>

text \<open>
  The protobuf enums. Their declarations are generated headers; the constructors below are
  the enumerators the source names, and the last constructor of each stands for every other
  value a variable of the C enum type can hold (the \<open>default:\<close> branches).
\<close>

datatype BTCCoin =
    BTCCoin_BTC | BTCCoin_TBTC | BTCCoin_LTC | BTCCoin_TLTC | BTCCoin_other nat

datatype BTCScriptConfig_Multisig_ScriptType =
    BTCScriptConfig_Multisig_ScriptType_P2WSH
  | BTCScriptConfig_Multisig_ScriptType_P2WSH_P2SH
  | BTCScriptConfig_Multisig_ScriptType_other nat

datatype BTCRegisterScriptConfigRequest_XPubType =
    BTCRegisterScriptConfigRequest_XPubType_AUTO_ELECTRUM
  | BTCRegisterScriptConfigRequest_XPubType_AUTO_XPUB_TPUB
  | BTCRegisterScriptConfigRequest_XPubType_other nat

datatype BTCPubRequest_XPubType =
    BTCPubRequest_XPubType_TPUB
  | BTCPubRequest_XPubType_XPUB
  | BTCPubRequest_XPubType_CAPITAL_VPUB
  | BTCPubRequest_XPubType_CAPITAL_ZPUB
  | BTCPubRequest_XPubType_CAPITAL_UPUB
  | BTCPubRequest_XPubType_CAPITAL_YPUB

text \<open>
  \<open>BTCScriptConfig_Multisig\<close>. The repeated field \<open>xpubs\<close> is a count and an array in C;
  here it is the list of the first \<open>xpubs_count\<close> entries, so \<open>xpubs_count\<close> is its length
  (bounded by the capacity of the array, far below \<open>2^32\<close>).
  \<open>threshold\<close> and \<open>our_xpub_index\<close> are \<open>uint32_t\<close>.
\<close>

record 'xpub BTCScriptConfig_Multisig =
  threshold :: "32 word"
  xpubs :: "'xpub list"
  our_xpub_index :: "32 word"
  script_type :: BTCScriptConfig_Multisig_ScriptType

definition xpubs_count :: "'xpub BTCScriptConfig_Multisig \<Rightarrow> nat" where
  "xpubs_count multisig = length (xpubs multisig)"

text \<open>
  The collaborators that are not part of the two source files, and the constant
  \<open>XPUB_ENCODED_LEN\<close>, are parameters: \<open>btc_common_coin_name\<close>,
  \<open>apps_common_bip32_xpub_from_protobuf\<close> (\<open>None\<close> when it returns false) and
  \<open>btc_common_encode_xpub\<close> (\<open>None\<close> when it returns false, otherwise the string it
  leaves in \<open>xpub_str\<close>).
\<close>

record ('xpub, 'key) btc_env =
  XPUB_ENCODED_LEN :: nat
  btc_common_coin_name :: "BTCCoin \<Rightarrow> string"
  apps_common_bip32_xpub_from_protobuf :: "'xpub \<Rightarrow> 'key option"
  btc_common_encode_xpub :: "'key \<Rightarrow> BTCPubRequest_XPubType \<Rightarrow> string option"

subsection \<open>The xpub-type resolution (lines 66 to 116)\<close>

text \<open>
  The nested \<open>switch\<close> either assigns \<open>output_xpub_type\<close> and falls out of the
  \<open>switch\<close>, or executes \<open>return false\<close>, or calls \<open>Abort\<close>.
\<close>

datatype resolution = Resolved BTCPubRequest_XPubType | ReturnFalse | AbortWith string

fun xpub_type_resolution ::
  "BTCCoin \<Rightarrow> BTCScriptConfig_Multisig_ScriptType \<Rightarrow> BTCRegisterScriptConfigRequest_XPubType
     \<Rightarrow> resolution" where
  "xpub_type_resolution coin st BTCRegisterScriptConfigRequest_XPubType_AUTO_ELECTRUM =
     (case coin of
        BTCCoin_BTC \<Rightarrow>
          (case st of
             BTCScriptConfig_Multisig_ScriptType_P2WSH \<Rightarrow> Resolved BTCPubRequest_XPubType_CAPITAL_ZPUB
           | BTCScriptConfig_Multisig_ScriptType_P2WSH_P2SH \<Rightarrow> Resolved BTCPubRequest_XPubType_CAPITAL_YPUB
           | BTCScriptConfig_Multisig_ScriptType_other _ \<Rightarrow> ReturnFalse)
      | BTCCoin_LTC \<Rightarrow>
          (case st of
             BTCScriptConfig_Multisig_ScriptType_P2WSH \<Rightarrow> Resolved BTCPubRequest_XPubType_CAPITAL_ZPUB
           | BTCScriptConfig_Multisig_ScriptType_P2WSH_P2SH \<Rightarrow> Resolved BTCPubRequest_XPubType_CAPITAL_YPUB
           | BTCScriptConfig_Multisig_ScriptType_other _ \<Rightarrow> ReturnFalse)
      | BTCCoin_TBTC \<Rightarrow>
          (case st of
             BTCScriptConfig_Multisig_ScriptType_P2WSH \<Rightarrow> Resolved BTCPubRequest_XPubType_CAPITAL_VPUB
           | BTCScriptConfig_Multisig_ScriptType_P2WSH_P2SH \<Rightarrow> Resolved BTCPubRequest_XPubType_CAPITAL_UPUB
           | BTCScriptConfig_Multisig_ScriptType_other _ \<Rightarrow> ReturnFalse)
      | BTCCoin_TLTC \<Rightarrow>
          (case st of
             BTCScriptConfig_Multisig_ScriptType_P2WSH \<Rightarrow> Resolved BTCPubRequest_XPubType_CAPITAL_VPUB
           | BTCScriptConfig_Multisig_ScriptType_P2WSH_P2SH \<Rightarrow> Resolved BTCPubRequest_XPubType_CAPITAL_UPUB
           | BTCScriptConfig_Multisig_ScriptType_other _ \<Rightarrow> ReturnFalse)
      | BTCCoin_other _ \<Rightarrow> AbortWith ''confirm multisig: unknown coin'')"
| "xpub_type_resolution coin st BTCRegisterScriptConfigRequest_XPubType_AUTO_XPUB_TPUB =
     (case coin of
        BTCCoin_BTC \<Rightarrow> Resolved BTCPubRequest_XPubType_XPUB
      | BTCCoin_LTC \<Rightarrow> Resolved BTCPubRequest_XPubType_XPUB
      | BTCCoin_TBTC \<Rightarrow> Resolved BTCPubRequest_XPubType_TPUB
      | BTCCoin_TLTC \<Rightarrow> Resolved BTCPubRequest_XPubType_TPUB
      | BTCCoin_other _ \<Rightarrow> AbortWith ''confirm multisig: unknown coin'')"
| "xpub_type_resolution coin st (BTCRegisterScriptConfigRequest_XPubType_other _) =
     AbortWith ''confirm multisig: unknown xpub_type''"

subsection \<open>The cosigner loop (lines 118 to 163)\<close>

text \<open>
  Lines 120 to 128 of the loop body at index \<open>i\<close>: the string left in \<open>xpub_str\<close>, or
  \<open>None\<close> when the decoding or the encoding fails (both make the body \<open>return false\<close>).
\<close>

definition xpub_str_at ::
  "('xpub, 'key) btc_env \<Rightarrow> 'xpub BTCScriptConfig_Multisig \<Rightarrow> BTCPubRequest_XPubType \<Rightarrow> nat
     \<Rightarrow> string option" where
  "xpub_str_at env multisig output_xpub_type i =
     (case apps_common_bip32_xpub_from_protobuf env (xpubs multisig ! i) of
        None \<Rightarrow> None
      | Some xpub \<Rightarrow> btc_common_encode_xpub env xpub output_xpub_type)"

text \<open>
  The loop from index \<open>i\<close> on. \<open>snprintf\<close> reports the length of the whole formatted
  text; the source aborts when it does not fit \<open>confirm\<close> (\<open>XPUB_ENCODED_LEN + 100\<close>
  bytes, terminator included).
\<close>

function cosigner_loop ::
  "('xpub, 'key) btc_env \<Rightarrow> string \<Rightarrow> 'xpub BTCScriptConfig_Multisig \<Rightarrow> BTCPubRequest_XPubType
     \<Rightarrow> nat \<Rightarrow> nat \<Rightarrow> ui_t \<Rightarrow> outcome \<times> ui_t" where
  "cosigner_loop env ttl multisig output_xpub_type num_cosigners i ui =
     (if i < num_cosigners then
        (case xpub_str_at env multisig output_xpub_type i of
           None \<Rightarrow> (Returned False, ui)
         | Some xpub_str \<Rightarrow>
            (let confirm =
                   (if i = unat (our_xpub_index multisig)
                    then ''Cosigner '' @ dec (i + 1) @ ''/'' @ dec num_cosigners
                           @ '' (this device): '' @ xpub_str
                    else ''Cosigner '' @ dec (i + 1) @ ''/'' @ dec num_cosigners
                           @ '': '' @ xpub_str)
             in if length confirm \<ge> XPUB_ENCODED_LEN env + 100 then
                  (Aborted (if i = unat (our_xpub_index multisig)
                            then ''apps_btc_confirm_multisig/1''
                            else ''apps_btc_confirm_multisig/2''), ui)
                else
                  (let params_xpub = \<lparr>title = ttl, body = confirm, scrollable = True,
                                       longtouch = (i = num_cosigners - 1),
                                       accept_is_nextarrow = True\<rparr>
                   in case workflow_confirm_blocking params_xpub ui of
                        (None, ui') \<Rightarrow> (Blocked, ui')
                      | (Some False, ui') \<Rightarrow> (Returned False, ui')
                      | (Some True, ui') \<Rightarrow>
                          cosigner_loop env ttl multisig output_xpub_type num_cosigners
                            (i + 1) ui')))
      else (Returned True, ui))"
  by pat_completeness auto
termination
  by (relation "measure (\<lambda>(env, ttl, multisig, t, n, i, ui). n - i)") auto

declare cosigner_loop.simps [simp del]

subsection \<open>\<open>apps_btc_confirm_multisig\<close>\<close>

definition params_basic :: "('xpub, 'key) btc_env \<Rightarrow> string \<Rightarrow> BTCCoin
    \<Rightarrow> 'xpub BTCScriptConfig_Multisig \<Rightarrow> confirm_params_t" where
  "params_basic env ttl coin multisig =
     \<lparr>title = ttl,
      body = ''Coin: '' @ btc_common_coin_name env coin @ [CHR 0x0A] @ ''Multisig type: ''
               @ dec (unat (threshold multisig)) @ ''-of-'' @ dec (xpubs_count multisig),
      scrollable = False, longtouch = False, accept_is_nextarrow = True\<rparr>"

definition params_name :: "string \<Rightarrow> string \<Rightarrow> confirm_params_t" where
  "params_name ttl nm =
     \<lparr>title = ttl, body = nm, scrollable = True, longtouch = False, accept_is_nextarrow = True\<rparr>"

definition apps_btc_confirm_multisig ::
  "('xpub, 'key) btc_env \<Rightarrow> string \<Rightarrow> BTCCoin \<Rightarrow> string \<Rightarrow> 'xpub BTCScriptConfig_Multisig
     \<Rightarrow> bool \<Rightarrow> BTCRegisterScriptConfigRequest_XPubType \<Rightarrow> ui_t \<Rightarrow> outcome \<times> ui_t" where
  "apps_btc_confirm_multisig env ttl coin nm multisig verify_xpubs xpub_type ui =
     (if length (body (params_basic env ttl coin multisig)) \<ge> 100 then
        (Aborted ''apps_btc_confirm_multisig/0'', ui)
      else
        (case workflow_confirm_blocking (params_basic env ttl coin multisig) ui of
           (None, ui1) \<Rightarrow> (Blocked, ui1)
         | (Some False, ui1) \<Rightarrow> (Returned False, ui1)
         | (Some True, ui1) \<Rightarrow>
            (case workflow_confirm_blocking (params_name ttl nm) ui1 of
               (None, ui2) \<Rightarrow> (Blocked, ui2)
             | (Some False, ui2) \<Rightarrow> (Returned False, ui2)
             | (Some True, ui2) \<Rightarrow>
                (if \<not> verify_xpubs then (Returned True, ui2)
                 else
                   (case xpub_type_resolution coin (script_type multisig) xpub_type of
                      ReturnFalse \<Rightarrow> (Returned False, ui2)
                    | AbortWith msg \<Rightarrow> (Aborted msg, ui2)
                    | Resolved output_xpub_type \<Rightarrow>
                        cosigner_loop env ttl multisig output_xpub_type
                          (xpubs_count multisig) 0 ui2)))))"

section \<open>\<open>src/workflow/restore_from_mnemonic.c\<close>\<close>

subsection \<open>Data and collaborators\<close>

definition WORKFLOW_RESTORE_FROM_MNEMONIC_MAX_WORDS :: nat where
  "WORKFLOW_RESTORE_FROM_MNEMONIC_MAX_WORDS = 24"

text \<open>
  Modelled from the spec: \<open>BIP39_WORDLIST_LEN\<close> comes from the header of an external
  library; the wordlist is the "fixed-size (2048-entry) sequence" of the data model.
\<close>

definition BIP39_WORDLIST_LEN :: nat where
  "BIP39_WORDLIST_LEN = 2048"

datatype trinary_choice_t =
    TRINARY_CHOICE_LEFT | TRINARY_CHOICE_MIDDLE | TRINARY_CHOICE_RIGHT | TRINARY_CHOICE_other nat

text \<open>
  Modelled from the spec: \<open>workflow_trinary_input_wordlist\<close> is not part of the source
  file. Its contract is \<open>enter_word(position, wordlist, preset_or_none) ->
  {Accepted(word) | Cancel | Delete}\<close>: it writes the entered word to its output buffer
  when it accepts, and leaves the buffer alone when it reports cancel or delete. The
  source tests for \<open>CANCEL\<close> and \<open>DELETE\<close> and takes every other result as accepted.
\<close>

datatype workflow_trinary_input_result_t =
    WORKFLOW_TRINARY_INPUT_RESULT_OK string
  | WORKFLOW_TRINARY_INPUT_RESULT_CANCEL
  | WORKFLOW_TRINARY_INPUT_RESULT_DELETE

datatype keystore_error_t = KEYSTORE_OK | KEYSTORE_ERR nat

text \<open>\<open>RestoreFromMnemonicRequest\<close>: the two fields the source reads.\<close>

record RestoreFromMnemonicRequest =
  timestamp :: "32 word"
  timezone_offset :: "32 word"

text \<open>
  The collaborators and constants that are not part of the source file are parameters.
  A collaborator that fills a caller's buffer yields its return value together with the
  bytes it leaves in the buffer, whatever it returns:
  \<open>keystore_bip39_mnemonic_to_seed\<close> yields (return value, contents of \<open>seed\<close>,
  \<open>seed_len\<close>).
\<close>

record restore_env =
  WORKFLOW_TRINARY_INPUT_MAX_WORD_LENGTH :: nat
  keystore_get_bip39_word :: "nat \<Rightarrow> string option"
  keystore_bip39_mnemonic_to_seed :: "string \<Rightarrow> bool \<times> 8 word list \<times> nat"
  keystore_encrypt_and_store_seed :: "8 word list \<Rightarrow> nat \<Rightarrow> string \<Rightarrow> bool"
  workflow_confirm_time :: "32 word \<Rightarrow> 32 word \<Rightarrow> bool \<Rightarrow> bool"
  securechip_u2f_counter_set :: "32 word \<Rightarrow> bool"
  memory_set_initialized :: bool
  keystore_unlock :: "string \<Rightarrow> keystore_error_t"

text \<open>
  What the user is going to do, per interaction, in order: the choice made on the
  "How many words?" screen (\<open>None\<close>: never made), the results of the successive word
  entries, and the results of the successive calls of \<open>password_set\<close> (its return value
  and the contents it leaves in \<open>password\<close>). A call whose list is used up never returns.
\<close>

record user_script =
  number_of_words_choice :: "trinary_choice_t option"
  word_inputs :: "workflow_trinary_input_result_t list"
  password_inputs :: "(bool \<times> string) list"

text \<open>
  The state outside the call: the confirmation prompts (shared with
  \<open>workflow_confirm_blocking\<close>), the status screens shown, the arguments
  \<open>(word_idx, preset)\<close> of the word-entry calls made, and the device.
  Modelled from the spec: the keystore and the memory module are not part of the source
  file; a successful \<open>encrypt_and_store\<close> persists the seed under the password, a
  successful \<open>mark_initialized\<close> sets the flag, a successful \<open>set_security_counter\<close>
  stores the value, and no collaborator the workflow calls removes a persisted seed.
\<close>

record world =
  ui :: ui_t
  statuses :: "(string \<times> bool) list"
  word_calls :: "(nat \<times> string option) list"
  stored_seed :: "(8 word list \<times> string) option"
  initialized :: bool
  u2f_counter :: "32 word option"
  unlock_bip39_started :: bool

definition workflow_status_blocking :: "string \<Rightarrow> bool \<Rightarrow> world \<Rightarrow> world" where
  "workflow_status_blocking msg status_success w = w\<lparr>statuses := statuses w @ [(msg, status_success)]\<rparr>"

subsection \<open>\<open>_pick_number_of_words\<close> and \<open>_get_mnemonic\<close>\<close>

text \<open>
  Isabelle names cannot start with an underscore: \<open>_pick_number_of_words\<close> and
  \<open>_get_mnemonic\<close> lose theirs. \<open>Inl\<close> is the message of \<open>Abort\<close>.
\<close>

definition pick_number_of_words :: "trinary_choice_t \<Rightarrow> string + nat" where
  "pick_number_of_words choice =
     (case choice of
        TRINARY_CHOICE_LEFT \<Rightarrow> Inr 12
      | TRINARY_CHOICE_MIDDLE \<Rightarrow> Inr 18
      | TRINARY_CHOICE_RIGHT \<Rightarrow> Inr 24
      | TRINARY_CHOICE_other _ \<Rightarrow> Inl ''restore_from_mnemonic: unreachable'')"

text \<open>
  The \<open>while (word_idx < num_words)\<close> loop (lines 106 to 130), on the array \<open>words\<close>,
  the position \<open>word_idx\<close>, the entry results still to come and the calls made so far.
  The preset argument is \<open>strlen(word) ? word : NULL\<close>. The loop ends when all words
  are entered, or by \<open>return false\<close> on cancel, or it waits for an entry that never comes;
  each way out comes with the array as the loop leaves it.
\<close>

datatype word_loop_exit =
    Words_complete "string list"
  | Words_cancel "string list"
  | Words_waiting nat "string list"

fun word_loop ::
  "nat \<Rightarrow> string list \<Rightarrow> nat \<Rightarrow> workflow_trinary_input_result_t list
     \<Rightarrow> (nat \<times> string option) list \<Rightarrow> word_loop_exit \<times> (nat \<times> string option) list" where
  "word_loop num_words words word_idx [] calls =
     (if word_idx < num_words then
        (let word = words ! word_idx
         in (Words_waiting word_idx words,
             calls @ [(word_idx, if length word \<noteq> 0 then Some word else None)]))
      else (Words_complete words, calls))"
| "word_loop num_words words word_idx (result # rest) calls =
     (if word_idx < num_words then
        (let word = words ! word_idx;
             calls' = calls @ [(word_idx, if length word \<noteq> 0 then Some word else None)]
         in case result of
              WORKFLOW_TRINARY_INPUT_RESULT_CANCEL \<Rightarrow> (Words_cancel words, calls')
            | WORKFLOW_TRINARY_INPUT_RESULT_DELETE \<Rightarrow>
                word_loop num_words words (if word_idx > 0 then word_idx - 1 else word_idx)
                  rest calls'
            | WORKFLOW_TRINARY_INPUT_RESULT_OK entered \<Rightarrow>
                word_loop num_words (words[word_idx := entered]) (word_idx + 1) rest calls')
      else (Words_complete words, calls))"

text \<open>
  The \<open>for\<close> loop of lines 131 to 136: \<open>strcat\<close> appends, \<open>strncat(dst, src, n)\<close>
  appends at most \<open>n\<close> characters of \<open>src\<close>.
\<close>

definition join_words :: "nat \<Rightarrow> nat \<Rightarrow> string list \<Rightarrow> string \<Rightarrow> string" where
  "join_words max_word_length num_words words mnemonic_out =
     fold (\<lambda>word_idx out.
             (if word_idx \<noteq> 0 then out @ '' '' else out) @ take max_word_length (words ! word_idx))
          [0..<num_words] mnemonic_out"

text \<open>
  \<open>_get_mnemonic\<close>: the outcome, the contents of \<open>mnemonic_out\<close> and the state outside.
  The C strings of the wordlist are freed on every way out (\<open>_cleanup_wordlist\<close>); heap
  allocation is not modelled.
\<close>

definition get_mnemonic ::
  "restore_env \<Rightarrow> user_script \<Rightarrow> string \<Rightarrow> world \<Rightarrow> outcome \<times> string \<times> world" where
  "get_mnemonic env script mnemonic_out w =
     (if \<not> list_all (\<lambda>i. keystore_get_bip39_word env i \<noteq> None) [0..<BIP39_WORDLIST_LEN]
      then (Returned False, mnemonic_out, w)
      else
        (case number_of_words_choice script of
           None \<Rightarrow> (Blocked, mnemonic_out, w)
         | Some choice \<Rightarrow>
            (case pick_number_of_words choice of
               Inl msg \<Rightarrow> (Aborted msg, mnemonic_out, w)
             | Inr num_words \<Rightarrow>
                (let w1 = workflow_status_blocking (''Enter '' @ dec num_words @ '' words'') True w;
                     words = replicate WORKFLOW_RESTORE_FROM_MNEMONIC_MAX_WORDS []
                 in case word_loop num_words words 0 (word_inputs script) (word_calls w1) of
                      (Words_waiting _ _, calls) \<Rightarrow>
                         (Blocked, mnemonic_out, w1\<lparr>word_calls := calls\<rparr>)
                    | (Words_cancel _, calls) \<Rightarrow>
                         (Returned False, mnemonic_out, w1\<lparr>word_calls := calls\<rparr>)
                    | (Words_complete words', calls) \<Rightarrow>
                         (Returned True,
                          join_words (WORKFLOW_TRINARY_INPUT_MAX_WORD_LENGTH env) num_words words'
                            mnemonic_out,
                          w1\<lparr>word_calls := calls\<rparr>)))))"

text \<open>
  The array \<open>words\<close> of lines 103 to 104 as \<open>_get_mnemonic\<close> leaves it when it returns.
  Unlike \<open>mnemonic\<close>, \<open>seed\<close> and \<open>password\<close> it has no cleanup attached, and no
  statement of the function clears it: what it holds at the \<open>return\<close> statement stays in
  the memory of the frame after the return. \<open>None\<close>: the function returns before the
  declaration (line 93), or it does not return.
\<close>

definition words_after_get_mnemonic :: "restore_env \<Rightarrow> user_script \<Rightarrow> string list option" where
  "words_after_get_mnemonic env script =
     (if \<not> list_all (\<lambda>i. keystore_get_bip39_word env i \<noteq> None) [0..<BIP39_WORDLIST_LEN]
      then None
      else
        (case number_of_words_choice script of
           None \<Rightarrow> None
         | Some choice \<Rightarrow>
            (case pick_number_of_words choice of
               Inl msg \<Rightarrow> None
             | Inr num_words \<Rightarrow>
                (case fst (word_loop num_words
                             (replicate WORKFLOW_RESTORE_FROM_MNEMONIC_MAX_WORDS []) 0
                             (word_inputs script) []) of
                   Words_waiting _ _ \<Rightarrow> None
                 | Words_cancel words' \<Rightarrow> Some words'
                 | Words_complete words' \<Rightarrow> Some words'))))"

subsection \<open>\<open>workflow_restore_from_mnemonic\<close>\<close>

text \<open>
  The secret buffers of the call, as the caller's stack holds them when the call is over.
  A \<open>char\<close> buffer is given by the C string it holds; a buffer of zero bytes holds the
  empty string. \<open>seed\<close> and \<open>password\<close> are declared in the course of the function:
  \<open>None\<close> says that the declaration was not reached, so the buffer was never written.
\<close>

record frame =
  mnemonic :: string
  seed :: "8 word list option"
  password :: "string option"

text \<open>
  Modelled from the spec: the macros \<open>UTIL_CLEANUP_STR\<close> and \<open>UTIL_CLEANUP_32\<close> are not
  part of the source file. They are the "cleanup-attribute buffers" of the design notes:
  from the declaration on, every \<open>return\<close> overwrites the buffer with zero bytes.
  \<open>Abort\<close> does not return, and a blocked call has not returned: neither runs a cleanup.
\<close>

definition UTIL_CLEANUP_STR_mnemonic :: "outcome \<times> frame \<times> world \<Rightarrow> outcome \<times> frame \<times> world" where
  "UTIL_CLEANUP_STR_mnemonic r =
     (case r of
        (Returned b, fr, w) \<Rightarrow> (Returned b, fr\<lparr>mnemonic := []\<rparr>, w)
      | _ \<Rightarrow> r)"

definition UTIL_CLEANUP_32_seed :: "outcome \<times> frame \<times> world \<Rightarrow> outcome \<times> frame \<times> world" where
  "UTIL_CLEANUP_32_seed r =
     (case r of
        (Returned b, fr, w) \<Rightarrow> (Returned b, fr\<lparr>seed := Some (replicate 32 0)\<rparr>, w)
      | _ \<Rightarrow> r)"

definition UTIL_CLEANUP_STR_password :: "outcome \<times> frame \<times> world \<Rightarrow> outcome \<times> frame \<times> world" where
  "UTIL_CLEANUP_STR_password r =
     (case r of
        (Returned b, fr, w) \<Rightarrow> (Returned b, fr\<lparr>password := Some []\<rparr>, w)
      | _ \<Rightarrow> r)"

text \<open>
  The \<open>while (true)\<close> loop of lines 166 to 179, on the results of \<open>password_set\<close> still
  to come, the contents of \<open>password\<close> and the prompts. It ends by \<open>break\<close> with the
  password set, or by \<open>return false\<close>, or it waits for the user.
\<close>

datatype password_loop_exit = Password_set | Password_return_false | Password_waiting

definition params_try_again :: confirm_params_t where
  "params_try_again =
     \<lparr>title = [],
      body = ''Passwords'' @ [CHR 0x0A] @ ''do not match.'' @ [CHR 0x0A] @ ''Try again?'',
      scrollable = False, longtouch = False, accept_is_nextarrow = False\<rparr>"

fun password_loop ::
  "(bool \<times> string) list \<Rightarrow> string \<Rightarrow> ui_t \<Rightarrow> password_loop_exit \<times> string \<times> ui_t" where
  "password_loop [] pw u = (Password_waiting, pw, u)"
| "password_loop ((ok, pw') # rest) pw u =
     (if \<not> ok then
        (case workflow_confirm_blocking params_try_again u of
           (None, u') \<Rightarrow> (Password_waiting, pw', u')
         | (Some False, u') \<Rightarrow> (Password_return_false, pw', u')
         | (Some True, u') \<Rightarrow> password_loop rest pw' u')
      else (Password_set, pw', u))"

text \<open>
  Lines 180 to 203, with the compile-time switch \<open>APP_U2F == 1\<close> as a parameter.
\<close>

definition persist_and_unlock ::
  "restore_env \<Rightarrow> bool \<Rightarrow> RestoreFromMnemonicRequest \<Rightarrow> 8 word list \<Rightarrow> nat \<Rightarrow> string
     \<Rightarrow> world \<Rightarrow> outcome \<times> world" where
  "persist_and_unlock env APP_U2F request seed_buf seed_len pw w =
     (if \<not> keystore_encrypt_and_store_seed env seed_buf seed_len pw then
        (Returned False,
         workflow_status_blocking (''Could not'' @ [CHR 0x0A] @ ''restore backup'') False w)
      else
        (let w1 = w\<lparr>stored_seed := Some (take seed_len seed_buf, pw)\<rparr>
         in if APP_U2F \<and> \<not> workflow_confirm_time env (timestamp request) (timezone_offset request) False
            then (Returned False, w1)
            else
              (let w2 = (if APP_U2F \<and> securechip_u2f_counter_set env (timestamp request)
                         then w1\<lparr>u2f_counter := Some (timestamp request)\<rparr> else w1)
               in if \<not> memory_set_initialized env then (Returned False, w2)
                  else
                    (let w3 = w2\<lparr>initialized := True\<rparr>
                     in if keystore_unlock env pw \<noteq> KEYSTORE_OK
                        then (Aborted ''workflow_restore_from_mnemonic: unlock failed'', w3)
                        else (Returned True, w3\<lparr>unlock_bip39_started := True\<rparr>)))))"

text \<open>
  The function. Each cleanup wraps the part of the body that follows the declaration it
  belongs to: \<open>mnemonic\<close> from line 148, \<open>seed\<close> from line 153, \<open>password\<close> from line 163.
\<close>

definition workflow_restore_from_mnemonic ::
  "restore_env \<Rightarrow> bool \<Rightarrow> RestoreFromMnemonicRequest \<Rightarrow> user_script \<Rightarrow> world
     \<Rightarrow> outcome \<times> frame \<times> world" where
  "workflow_restore_from_mnemonic env APP_U2F request script w =
     UTIL_CLEANUP_STR_mnemonic
       (case get_mnemonic env script [] w of
          (Returned False, mn, w1) \<Rightarrow>
             (Returned False, \<lparr>mnemonic = mn, seed = None, password = None\<rparr>, w1)
        | (Aborted msg, mn, w1) \<Rightarrow>
             (Aborted msg, \<lparr>mnemonic = mn, seed = None, password = None\<rparr>, w1)
        | (Blocked, mn, w1) \<Rightarrow>
             (Blocked, \<lparr>mnemonic = mn, seed = None, password = None\<rparr>, w1)
        | (Returned True, mn, w1) \<Rightarrow>
             UTIL_CLEANUP_32_seed
               (case keystore_bip39_mnemonic_to_seed env mn of
                  (False, seed_buf, seed_len) \<Rightarrow>
                     (Returned False, \<lparr>mnemonic = mn, seed = Some seed_buf, password = None\<rparr>,
                      workflow_status_blocking (''Recovery words'' @ [CHR 0x0A] @ ''invalid'') False w1)
                | (True, seed_buf, seed_len) \<Rightarrow>
                     (let w2 = workflow_status_blocking
                                 (''Recovery words'' @ [CHR 0x0A] @ ''valid'') True w1
                      in UTIL_CLEANUP_STR_password
                           (case password_loop (password_inputs script) [] (ui w2) of
                              (Password_waiting, pw, u) \<Rightarrow>
                                 (Blocked,
                                  \<lparr>mnemonic = mn, seed = Some seed_buf, password = Some pw\<rparr>,
                                  w2\<lparr>ui := u\<rparr>)
                            | (Password_return_false, pw, u) \<Rightarrow>
                                 (Returned False,
                                  \<lparr>mnemonic = mn, seed = Some seed_buf, password = Some pw\<rparr>,
                                  w2\<lparr>ui := u\<rparr>)
                            | (Password_set, pw, u) \<Rightarrow>
                                 (case persist_and_unlock env APP_U2F request seed_buf seed_len pw
                                         (w2\<lparr>ui := u\<rparr>) of
                                    (out, w3) \<Rightarrow>
                                      (out,
                                       \<lparr>mnemonic = mn, seed = Some seed_buf, password = Some pw\<rparr>,
                                       w3))))))"

section \<open>The joined mnemonic as the specification words it\<close>


section \<open>Properties of \<open>apps_btc_confirm_multisig\<close>\<close>

subsection \<open>Auxiliary facts\<close>

text \<open>
  With room for the summary text, a caller that asks for xpub verification and a user who
  accepts the summary and the name, the call reaches the xpub-type resolution.
\<close>

lemma confirm_multisig_after_prompts:
  assumes "length (body (params_basic env ttl coin m)) < 100"
  shows "apps_btc_confirm_multisig env ttl coin nm m True fam \<lparr>answers = True # True # as, shown = sh\<rparr> =
     (case xpub_type_resolution coin (script_type m) fam of
        ReturnFalse \<Rightarrow> (Returned False, \<lparr>answers = as, shown = sh @ [params_basic env ttl coin m, params_name ttl nm]\<rparr>)
      | AbortWith msg \<Rightarrow> (Aborted msg, \<lparr>answers = as, shown = sh @ [params_basic env ttl coin m, params_name ttl nm]\<rparr>)
      | Resolved t \<Rightarrow> cosigner_loop env ttl m t (xpubs_count m) 0
           \<lparr>answers = as, shown = sh @ [params_basic env ttl coin m, params_name ttl nm]\<rparr>)"
  using assms by (simp add: apps_btc_confirm_multisig_def workflow_confirm_blocking_def)

text \<open>A number below \<open>10^d\<close> has at most \<open>d\<close> digits; an \<open>unsigned long\<close> of 32 bits has at most ten.\<close>

lemma length_dec: "0 < d \<Longrightarrow> n < 10 ^ d \<Longrightarrow> length (dec n) \<le> d"
proof (induction d arbitrary: n)
  case 0 then show ?case by simp
next
  case (Suc d)
  show ?case
  proof (cases "n < 10")
    case True then show ?thesis by (subst dec.simps) simp
  next
    case False
    then have "0 < d" using Suc.prems by (cases d) auto
    moreover have "n div 10 < 10 ^ d" using Suc.prems by (simp add: less_mult_imp_div_less mult.commute)
    ultimately have "length (dec (n div 10)) \<le> d" by (rule Suc.IH)
    with False show ?thesis by (subst dec.simps) simp
  qed
qed

lemma length_dec_32: "n < 2 ^ 32 \<Longrightarrow> length (dec n) \<le> 10"
  by (rule length_dec) simp_all

text \<open>
  One pass through the loop body when the decoding and the encoding succeed and the encoded
  key fits \<open>xpub_str\<close>: the text fits \<open>confirm\<close>, the prompt is presented, and the
  answer decides.
\<close>

lemma cosigner_loop_step:
  assumes "i < n" and "xpub_str_at env m t i = Some s"
    and "length s < XPUB_ENCODED_LEN env" and "n < 2 ^ 32"
  shows "cosigner_loop env ttl m t n i \<lparr>answers = a # as, shown = sh\<rparr> =
     (if a then cosigner_loop env ttl m t n (Suc i)
                 \<lparr>answers = as, shown = sh @ [\<lparr>title = ttl,
                    body = ''Cosigner '' @ dec (i + 1) @ ''/'' @ dec n
                             @ (if i = unat (our_xpub_index m) then '' (this device)'' else [])
                             @ '': '' @ s,
                    scrollable = True, longtouch = (i = n - 1), accept_is_nextarrow = True\<rparr>]\<rparr>
      else (Returned False,
            \<lparr>answers = as, shown = sh @ [\<lparr>title = ttl,
                    body = ''Cosigner '' @ dec (i + 1) @ ''/'' @ dec n
                             @ (if i = unat (our_xpub_index m) then '' (this device)'' else [])
                             @ '': '' @ s,
                    scrollable = True, longtouch = (i = n - 1), accept_is_nextarrow = True\<rparr>]\<rparr>))"
proof -
  have "length (dec (i + 1)) \<le> 10" "length (dec n) \<le> 10"
    using assms(1,4) by (auto intro!: length_dec_32)
  then have len: "length (dec (i + 1)) + length (dec n) + length s < XPUB_ENCODED_LEN env + 20"
    using assms(3) by linarith
  show ?thesis
  proof (cases "i = unat (our_xpub_index m)")
    case True
    with len have
      "\<not> XPUB_ENCODED_LEN env + 100 \<le> length (''Cosigner '' @ dec (i + 1) @ ''/'' @ dec n @ '' (this device): '' @ s)"
      by simp
    with True assms(1,2) show ?thesis
      by (subst cosigner_loop.simps) (simp add: workflow_confirm_blocking_def Let_def del: length_append)
  next
    case False
    with len have
      "\<not> XPUB_ENCODED_LEN env + 100 \<le> length (''Cosigner '' @ dec (i + 1) @ ''/'' @ dec n @ '': '' @ s)"
      by simp
    with False assms(1,2) show ?thesis
      by (subst cosigner_loop.simps) (simp add: workflow_confirm_blocking_def Let_def del: length_append)
  qed
qed

text \<open>
  The whole loop from index \<open>i0\<close>, for a user who is going to answer every prompt:
  the prompts presented are those of the indices \<open>i0\<close> to \<open>k - 1\<close>, and the loop ends after
  index \<open>n - 1\<close> with success, or at the first index whose key fails to decode or encode, or
  at the first declined prompt.
\<close>

lemma cosigner_loop_run:
  fixes env :: "('xpub, 'key) btc_env" and m :: "'xpub BTCScriptConfig_Multisig" and ttl :: string and n :: nat and t :: BTCPubRequest_XPubType
  defines "prompt \<equiv> \<lambda>i. \<lparr>title = ttl,
      body = ''Cosigner '' @ dec (i + 1) @ ''/'' @ dec n
               @ (if i = unat (our_xpub_index m) then '' (this device)'' else [])
               @ '': '' @ the (xpub_str_at env m t i),
      scrollable = True, longtouch = (i = n - 1), accept_is_nextarrow = True\<rparr>"
  assumes fits: "\<forall>key ty s. btc_common_encode_xpub env key ty = Some s \<longrightarrow> length s < XPUB_ENCODED_LEN env"
    and small: "n < 2 ^ 32" and answered: "n \<le> length as" and i0: "i0 \<le> n"
  shows "\<exists>k. i0 \<le> k \<and> k \<le> n \<and>
           (\<forall>j. i0 \<le> j \<and> j < k \<longrightarrow> xpub_str_at env m t j \<noteq> None) \<and>
           snd (cosigner_loop env ttl m t n i0 \<lparr>answers = drop i0 as, shown = shs\<rparr>)
             = \<lparr>answers = drop k as, shown = shs @ map prompt [i0..<k]\<rparr> \<and>
           (k = n \<and> (\<forall>j. i0 \<le> j \<and> j < k \<longrightarrow> as ! j) \<and>
              fst (cosigner_loop env ttl m t n i0 \<lparr>answers = drop i0 as, shown = shs\<rparr>) = Returned True
            \<or> k < n \<and> (\<forall>j. i0 \<le> j \<and> j < k \<longrightarrow> as ! j) \<and> xpub_str_at env m t k = None \<and>
              fst (cosigner_loop env ttl m t n i0 \<lparr>answers = drop i0 as, shown = shs\<rparr>) = Returned False
            \<or> i0 < k \<and> (\<forall>j. i0 \<le> j \<and> j < k - 1 \<longrightarrow> as ! j) \<and> \<not> as ! (k - 1) \<and>
              fst (cosigner_loop env ttl m t n i0 \<lparr>answers = drop i0 as, shown = shs\<rparr>) = Returned False)"
  using i0
proof (induction "n - i0" arbitrary: i0 shs)
  case 0
  then have "i0 = n" by simp
  then show ?case
    by (intro exI[of _ n]) (auto simp: cosigner_loop.simps[of _ _ _ _ n n])
next
  case (Suc d)
  then have lt: "i0 < n" by simp
  let ?ui = "\<lparr>answers = drop i0 as, shown = shs\<rparr>"
  show ?case
  proof (cases "xpub_str_at env m t i0")
    case None
    then have "cosigner_loop env ttl m t n i0 ?ui = (Returned False, ?ui)"
      using lt by (subst cosigner_loop.simps) simp
    with None lt show ?thesis
      by (intro exI[of _ i0]) auto
  next
    case (Some s)
    then have fit: "length s < XPUB_ENCODED_LEN env"
      using fits by (auto simp: xpub_str_at_def split: option.splits)
    have dr: "drop i0 as = as ! i0 # drop (Suc i0) as"
      using lt answered by (simp add: Cons_nth_drop_Suc)
    have pr: "prompt i0 = \<lparr>title = ttl,
        body = ''Cosigner '' @ dec (i0 + 1) @ ''/'' @ dec n
                 @ (if i0 = unat (our_xpub_index m) then '' (this device)'' else [])
                 @ '': '' @ s,
        scrollable = True, longtouch = (i0 = n - 1), accept_is_nextarrow = True\<rparr>"
      using Some by (simp add: prompt_def)
    have stp: "cosigner_loop env ttl m t n i0 \<lparr>answers = drop i0 as, shown = shs\<rparr> =
       (if as ! i0 then cosigner_loop env ttl m t n (Suc i0)
                 \<lparr>answers = drop (Suc i0) as, shown = shs @ [prompt i0]\<rparr>
        else (Returned False, \<lparr>answers = drop (Suc i0) as, shown = shs @ [prompt i0]\<rparr>))"
      unfolding pr dr by (rule cosigner_loop_step[OF lt Some fit small])
    show ?thesis
    proof (cases "as ! i0")
      case False
      have "cosigner_loop env ttl m t n i0 ?ui
              = (Returned False, \<lparr>answers = drop (Suc i0) as, shown = shs @ [prompt i0]\<rparr>)"
        using stp False by simp
      with False lt Some show ?thesis
        by (intro exI[of _ "Suc i0"]) (auto simp: less_Suc_eq_le)
    next
      case True
      define R where "R = cosigner_loop env ttl m t n (Suc i0) \<lparr>answers = drop (Suc i0) as, shown = shs @ [prompt i0]\<rparr>"
      have step: "cosigner_loop env ttl m t n i0 ?ui = R"
        using stp True by (simp add: R_def)
      have "d = n - Suc i0" "Suc i0 \<le> n" using Suc.hyps(2) lt by simp_all
      from Suc.hyps(1)[OF this, of "shs @ [prompt i0]", folded R_def]
      obtain k where k: "Suc i0 \<le> k" "k \<le> n"
        "\<forall>j. Suc i0 \<le> j \<and> j < k \<longrightarrow> xpub_str_at env m t j \<noteq> None"
        "snd R = \<lparr>answers = drop k as, shown = (shs @ [prompt i0]) @ map prompt [Suc i0..<k]\<rparr>"
        "k = n \<and> (\<forall>j. Suc i0 \<le> j \<and> j < k \<longrightarrow> as ! j) \<and> fst R = Returned True
            \<or> k < n \<and> (\<forall>j. Suc i0 \<le> j \<and> j < k \<longrightarrow> as ! j) \<and> xpub_str_at env m t k = None \<and> fst R = Returned False
            \<or> Suc i0 < k \<and> (\<forall>j. Suc i0 \<le> j \<and> j < k - 1 \<longrightarrow> as ! j) \<and> \<not> as ! (k - 1) \<and> fst R = Returned False"
        by blast
      have upt: "[i0..<k] = i0 # [Suc i0..<k]" using k(1) by (simp add: upt_conv_Cons)
      have a: "\<forall>j. i0 \<le> j \<and> j < k \<longrightarrow> xpub_str_at env m t j \<noteq> None"
        using Some k(3) by (metis Suc_leI le_neq_implies_less option.distinct(1))
      have b: "(\<forall>j. Suc i0 \<le> j \<and> j < k' \<longrightarrow> as ! j) \<Longrightarrow> (\<forall>j. i0 \<le> j \<and> j < k' \<longrightarrow> as ! j)" for k'
        using True by (metis Suc_leI le_neq_implies_less)
      show ?thesis
        unfolding step
      proof (intro exI[of _ k] conjI)
        show "i0 \<le> k" using k(1) by simp
        show "k \<le> n" by (rule k(2))
        show "\<forall>j. i0 \<le> j \<and> j < k \<longrightarrow> xpub_str_at env m t j \<noteq> None" by (rule a)
        show "snd R = \<lparr>answers = drop k as, shown = shs @ map prompt [i0..<k]\<rparr>"
          by (simp add: k(4) upt)
        from k(5) show "k = n \<and> (\<forall>j. i0 \<le> j \<and> j < k \<longrightarrow> as ! j) \<and> fst R = Returned True
            \<or> k < n \<and> (\<forall>j. i0 \<le> j \<and> j < k \<longrightarrow> as ! j) \<and> xpub_str_at env m t k = None \<and> fst R = Returned False
            \<or> i0 < k \<and> (\<forall>j. i0 \<le> j \<and> j < k - 1 \<longrightarrow> as ! j) \<and> \<not> as ! (k - 1) \<and> fst R = Returned False"
        proof (elim disjE conjE)
          assume "k = n" "\<forall>j. Suc i0 \<le> j \<and> j < k \<longrightarrow> as ! j" "fst R = Returned True"
          then show ?thesis using b[of k] by blast
        next
          assume "k < n" "\<forall>j. Suc i0 \<le> j \<and> j < k \<longrightarrow> as ! j" "xpub_str_at env m t k = None"
            "fst R = Returned False"
          then show ?thesis using b[of k] by blast
        next
          assume "Suc i0 < k" "\<forall>j. Suc i0 \<le> j \<and> j < k - 1 \<longrightarrow> as ! j" "\<not> as ! (k - 1)"
            "fst R = Returned False"
          moreover from this have "i0 < k" by simp
          ultimately show ?thesis using b[of "k - 1"] by blast
        qed
      qed
    qed
  qed
qed

text \<open>
  The resolution aborts exactly for a coin or a requested family outside the named
  enumerators; for a named coin, a script type outside the two named ones makes the
  Electrum branch return false.
\<close>

lemma resolution_aborts_iff:
  "(\<exists>msg. xpub_type_resolution coin st fam = AbortWith msg)
     \<longleftrightarrow> ((\<exists>c. coin = BTCCoin_other c) \<or> (\<exists>x. fam = BTCRegisterScriptConfigRequest_XPubType_other x))"
  by (cases fam; cases coin; cases st) simp_all

lemma resolution_electrum_other_script:
  "\<forall>c. coin \<noteq> BTCCoin_other c \<Longrightarrow>
   xpub_type_resolution coin (BTCScriptConfig_Multisig_ScriptType_other k)
     BTCRegisterScriptConfigRequest_XPubType_AUTO_ELECTRUM = ReturnFalse"
  by (cases coin) simp_all

subsection \<open>The xpub-type table\<close>

text \<open>
  Claim C1. The resolution agrees with the reference table. Under the Electrum-style
  automatic family, BTC and LTC map P2WSH to capital-Z and P2WSH-in-P2SH to capital-Y,
  TBTC and TLTC map P2WSH to capital-V and P2WSH-in-P2SH to capital-U, and every other
  script type makes the call return false. Under the xpub/tpub automatic family, BTC and
  LTC resolve to xpub and TBTC and TLTC to tpub, whatever the script type. The last
  conjunct ties the table to the call: once the summary and the name are accepted (and
  the summary text fits), a resolved type is the one the cosigner loop runs with, and
  \<open>return false\<close> of the resolution is the result of the call with no further prompt.
\<close>

theorem xpub_type_table:
  "xpub_type_resolution BTCCoin_BTC BTCScriptConfig_Multisig_ScriptType_P2WSH
      BTCRegisterScriptConfigRequest_XPubType_AUTO_ELECTRUM = Resolved BTCPubRequest_XPubType_CAPITAL_ZPUB
   \<and> xpub_type_resolution BTCCoin_LTC BTCScriptConfig_Multisig_ScriptType_P2WSH
      BTCRegisterScriptConfigRequest_XPubType_AUTO_ELECTRUM = Resolved BTCPubRequest_XPubType_CAPITAL_ZPUB
   \<and> xpub_type_resolution BTCCoin_BTC BTCScriptConfig_Multisig_ScriptType_P2WSH_P2SH
      BTCRegisterScriptConfigRequest_XPubType_AUTO_ELECTRUM = Resolved BTCPubRequest_XPubType_CAPITAL_YPUB
   \<and> xpub_type_resolution BTCCoin_LTC BTCScriptConfig_Multisig_ScriptType_P2WSH_P2SH
      BTCRegisterScriptConfigRequest_XPubType_AUTO_ELECTRUM = Resolved BTCPubRequest_XPubType_CAPITAL_YPUB
   \<and> xpub_type_resolution BTCCoin_TBTC BTCScriptConfig_Multisig_ScriptType_P2WSH
      BTCRegisterScriptConfigRequest_XPubType_AUTO_ELECTRUM = Resolved BTCPubRequest_XPubType_CAPITAL_VPUB
   \<and> xpub_type_resolution BTCCoin_TLTC BTCScriptConfig_Multisig_ScriptType_P2WSH
      BTCRegisterScriptConfigRequest_XPubType_AUTO_ELECTRUM = Resolved BTCPubRequest_XPubType_CAPITAL_VPUB
   \<and> xpub_type_resolution BTCCoin_TBTC BTCScriptConfig_Multisig_ScriptType_P2WSH_P2SH
      BTCRegisterScriptConfigRequest_XPubType_AUTO_ELECTRUM = Resolved BTCPubRequest_XPubType_CAPITAL_UPUB
   \<and> xpub_type_resolution BTCCoin_TLTC BTCScriptConfig_Multisig_ScriptType_P2WSH_P2SH
      BTCRegisterScriptConfigRequest_XPubType_AUTO_ELECTRUM = Resolved BTCPubRequest_XPubType_CAPITAL_UPUB
   \<and> xpub_type_resolution BTCCoin_BTC (BTCScriptConfig_Multisig_ScriptType_other k)
      BTCRegisterScriptConfigRequest_XPubType_AUTO_ELECTRUM = ReturnFalse
   \<and> xpub_type_resolution BTCCoin_LTC (BTCScriptConfig_Multisig_ScriptType_other k)
      BTCRegisterScriptConfigRequest_XPubType_AUTO_ELECTRUM = ReturnFalse
   \<and> xpub_type_resolution BTCCoin_TBTC (BTCScriptConfig_Multisig_ScriptType_other k)
      BTCRegisterScriptConfigRequest_XPubType_AUTO_ELECTRUM = ReturnFalse
   \<and> xpub_type_resolution BTCCoin_TLTC (BTCScriptConfig_Multisig_ScriptType_other k)
      BTCRegisterScriptConfigRequest_XPubType_AUTO_ELECTRUM = ReturnFalse
   \<and> xpub_type_resolution BTCCoin_BTC st
      BTCRegisterScriptConfigRequest_XPubType_AUTO_XPUB_TPUB = Resolved BTCPubRequest_XPubType_XPUB
   \<and> xpub_type_resolution BTCCoin_LTC st
      BTCRegisterScriptConfigRequest_XPubType_AUTO_XPUB_TPUB = Resolved BTCPubRequest_XPubType_XPUB
   \<and> xpub_type_resolution BTCCoin_TBTC st
      BTCRegisterScriptConfigRequest_XPubType_AUTO_XPUB_TPUB = Resolved BTCPubRequest_XPubType_TPUB
   \<and> xpub_type_resolution BTCCoin_TLTC st
      BTCRegisterScriptConfigRequest_XPubType_AUTO_XPUB_TPUB = Resolved BTCPubRequest_XPubType_TPUB
   \<and> (length (body (params_basic env ttl coin m)) < 100 \<longrightarrow>
        (\<forall>t. xpub_type_resolution coin (script_type m) fam = Resolved t \<longrightarrow>
           apps_btc_confirm_multisig env ttl coin nm m True fam \<lparr>answers = True # True # as, shown = sh\<rparr>
             = cosigner_loop env ttl m t (xpubs_count m) 0
                 \<lparr>answers = as, shown = sh @ [params_basic env ttl coin m, params_name ttl nm]\<rparr>)
        \<and> (xpub_type_resolution coin (script_type m) fam = ReturnFalse \<longrightarrow>
           apps_btc_confirm_multisig env ttl coin nm m True fam \<lparr>answers = True # True # as, shown = sh\<rparr>
             = (Returned False,
                \<lparr>answers = as, shown = sh @ [params_basic env ttl coin m, params_name ttl nm]\<rparr>)))"
  by (simp add: confirm_multisig_after_prompts)

text \<open>
  The table at work: BTC with a script type outside the two named ones, under the
  Electrum-style family.
\<close>

theorem xpub_type_table_witness:
  "length (body (params_basic
       \<lparr>XPUB_ENCODED_LEN = 113, btc_common_coin_name = (\<lambda>c. ''Bitcoin''),
        apps_common_bip32_xpub_from_protobuf = (\<lambda>x::nat. Some x),
        btc_common_encode_xpub = (\<lambda>(k::nat) ty. Some ''xpub'')\<rparr> ''Register'' BTCCoin_BTC
       \<lparr>threshold = 1, xpubs = [], our_xpub_index = 0,
        script_type = BTCScriptConfig_Multisig_ScriptType_other 7\<rparr>)) < 100
   \<and> xpub_type_resolution BTCCoin_BTC (BTCScriptConfig_Multisig_ScriptType_other 7)
        BTCRegisterScriptConfigRequest_XPubType_AUTO_ELECTRUM = ReturnFalse
   \<and> fst (apps_btc_confirm_multisig
       \<lparr>XPUB_ENCODED_LEN = 113, btc_common_coin_name = (\<lambda>c. ''Bitcoin''),
        apps_common_bip32_xpub_from_protobuf = (\<lambda>x::nat. Some x),
        btc_common_encode_xpub = (\<lambda>(k::nat) ty. Some ''xpub'')\<rparr> ''Register'' BTCCoin_BTC ''account''
       \<lparr>threshold = 1, xpubs = [], our_xpub_index = 0,
        script_type = BTCScriptConfig_Multisig_ScriptType_other 7\<rparr>
       True BTCRegisterScriptConfigRequest_XPubType_AUTO_ELECTRUM
       \<lparr>answers = [True, True], shown = []\<rparr>) = Returned False"
proof -
  let ?env = "\<lparr>XPUB_ENCODED_LEN = 113, btc_common_coin_name = (\<lambda>c. ''Bitcoin''),
        apps_common_bip32_xpub_from_protobuf = (\<lambda>x::nat. Some x),
        btc_common_encode_xpub = (\<lambda>(k::nat) ty. Some ''xpub'')\<rparr>"
  let ?m = "\<lparr>threshold = 1, xpubs = [], our_xpub_index = 0,
        script_type = BTCScriptConfig_Multisig_ScriptType_other 7\<rparr> :: nat BTCScriptConfig_Multisig"
  have h: "length (body (params_basic ?env ''Register'' BTCCoin_BTC ?m)) < 100"
    by (simp add: params_basic_def xpubs_count_def dec.simps digit_char_def)
  have r: "xpub_type_resolution BTCCoin_BTC (script_type ?m)
        BTCRegisterScriptConfigRequest_XPubType_AUTO_ELECTRUM = ReturnFalse"
    by simp
  from xpub_type_table[where env = ?env and ttl = "''Register''" and coin = BTCCoin_BTC and m = ?m
      and fam = BTCRegisterScriptConfigRequest_XPubType_AUTO_ELECTRUM and nm = "''account''"
      and as = "[]" and sh = "[]"] h r
  show ?thesis by simp
qed

subsection \<open>Unrecognised coins and families\<close>

text \<open>
  Claim C7. A coin outside BTC, LTC, TBTC, TLTC and a requested family outside the two
  automatic ones make the resolution call \<open>Abort\<close>, and nothing else does: for named
  coins and families the abort is unreachable. The call then halts instead of returning.
  By contrast, for a named coin an unsupported script type under the Electrum-style
  family is an ordinary \<open>return false\<close>.
\<close>

theorem unrecognized_coin_or_family_aborts:
  "xpub_type_resolution (BTCCoin_other c) st BTCRegisterScriptConfigRequest_XPubType_AUTO_ELECTRUM
      = AbortWith ''confirm multisig: unknown coin''
   \<and> xpub_type_resolution (BTCCoin_other c) st BTCRegisterScriptConfigRequest_XPubType_AUTO_XPUB_TPUB
      = AbortWith ''confirm multisig: unknown coin''
   \<and> xpub_type_resolution coin st (BTCRegisterScriptConfigRequest_XPubType_other x)
      = AbortWith ''confirm multisig: unknown xpub_type''
   \<and> ((\<exists>msg. xpub_type_resolution coin st fam = AbortWith msg)
        \<longleftrightarrow> ((\<exists>c. coin = BTCCoin_other c) \<or> (\<exists>x. fam = BTCRegisterScriptConfigRequest_XPubType_other x)))
   \<and> (length (body (params_basic env ttl coin m)) < 100 \<longrightarrow>
        (((\<exists>c. coin = BTCCoin_other c) \<or> (\<exists>x. fam = BTCRegisterScriptConfigRequest_XPubType_other x)) \<longrightarrow>
           (\<exists>msg. apps_btc_confirm_multisig env ttl coin nm m True fam \<lparr>answers = True # True # as, shown = sh\<rparr>
              = (Aborted msg,
                 \<lparr>answers = as, shown = sh @ [params_basic env ttl coin m, params_name ttl nm]\<rparr>)))
        \<and> ((\<forall>c. coin \<noteq> BTCCoin_other c) \<and> (\<exists>k. script_type m = BTCScriptConfig_Multisig_ScriptType_other k) \<longrightarrow>
           apps_btc_confirm_multisig env ttl coin nm m True
               BTCRegisterScriptConfigRequest_XPubType_AUTO_ELECTRUM \<lparr>answers = True # True # as, shown = sh\<rparr>
              = (Returned False,
                 \<lparr>answers = as, shown = sh @ [params_basic env ttl coin m, params_name ttl nm]\<rparr>)))"
proof (intro conjI impI)
  show "(\<exists>msg. xpub_type_resolution coin st fam = AbortWith msg)
        \<longleftrightarrow> ((\<exists>c. coin = BTCCoin_other c) \<or> (\<exists>x. fam = BTCRegisterScriptConfigRequest_XPubType_other x))"
    by (rule resolution_aborts_iff)
next
  assume len: "length (body (params_basic env ttl coin m)) < 100"
    and "(\<exists>c. coin = BTCCoin_other c) \<or> (\<exists>x. fam = BTCRegisterScriptConfigRequest_XPubType_other x)"
  then obtain msg where "xpub_type_resolution coin (script_type m) fam = AbortWith msg"
    using resolution_aborts_iff[of coin "script_type m" fam] by blast
  then show "\<exists>msg. apps_btc_confirm_multisig env ttl coin nm m True fam \<lparr>answers = True # True # as, shown = sh\<rparr>
              = (Aborted msg,
                 \<lparr>answers = as, shown = sh @ [params_basic env ttl coin m, params_name ttl nm]\<rparr>)"
    by (simp add: confirm_multisig_after_prompts[OF len])
next
  assume len: "length (body (params_basic env ttl coin m)) < 100"
    and "(\<forall>c. coin \<noteq> BTCCoin_other c) \<and> (\<exists>k. script_type m = BTCScriptConfig_Multisig_ScriptType_other k)"
  then have "xpub_type_resolution coin (script_type m)
      BTCRegisterScriptConfigRequest_XPubType_AUTO_ELECTRUM = ReturnFalse"
    by (metis resolution_electrum_other_script)
  then show "apps_btc_confirm_multisig env ttl coin nm m True
               BTCRegisterScriptConfigRequest_XPubType_AUTO_ELECTRUM \<lparr>answers = True # True # as, shown = sh\<rparr>
              = (Returned False,
                 \<lparr>answers = as, shown = sh @ [params_basic env ttl coin m, params_name ttl nm]\<rparr>)"
    by (simp add: confirm_multisig_after_prompts[OF len])
qed simp_all

text \<open>
  BTC with an unsupported script type: an unrecognised family aborts the call, the
  Electrum-style family makes it return false.
\<close>

theorem unrecognized_coin_or_family_aborts_witness:
  "length (body (params_basic
       \<lparr>XPUB_ENCODED_LEN = 113, btc_common_coin_name = (\<lambda>c. ''Bitcoin''),
        apps_common_bip32_xpub_from_protobuf = (\<lambda>x::nat. Some x),
        btc_common_encode_xpub = (\<lambda>(k::nat) ty. Some ''xpub'')\<rparr> ''Register'' BTCCoin_BTC
       \<lparr>threshold = 1, xpubs = [5], our_xpub_index = 0,
        script_type = BTCScriptConfig_Multisig_ScriptType_other 3\<rparr>)) < 100
   \<and> (\<exists>msg. fst (apps_btc_confirm_multisig
       \<lparr>XPUB_ENCODED_LEN = 113, btc_common_coin_name = (\<lambda>c. ''Bitcoin''),
        apps_common_bip32_xpub_from_protobuf = (\<lambda>x::nat. Some x),
        btc_common_encode_xpub = (\<lambda>(k::nat) ty. Some ''xpub'')\<rparr> ''Register'' BTCCoin_BTC ''account''
       \<lparr>threshold = 1, xpubs = [5], our_xpub_index = 0,
        script_type = BTCScriptConfig_Multisig_ScriptType_other 3\<rparr>
       True (BTCRegisterScriptConfigRequest_XPubType_other 9)
       \<lparr>answers = [True, True], shown = []\<rparr>) = Aborted msg)
   \<and> fst (apps_btc_confirm_multisig
       \<lparr>XPUB_ENCODED_LEN = 113, btc_common_coin_name = (\<lambda>c. ''Bitcoin''),
        apps_common_bip32_xpub_from_protobuf = (\<lambda>x::nat. Some x),
        btc_common_encode_xpub = (\<lambda>(k::nat) ty. Some ''xpub'')\<rparr> ''Register'' BTCCoin_BTC ''account''
       \<lparr>threshold = 1, xpubs = [5], our_xpub_index = 0,
        script_type = BTCScriptConfig_Multisig_ScriptType_other 3\<rparr>
       True BTCRegisterScriptConfigRequest_XPubType_AUTO_ELECTRUM
       \<lparr>answers = [True, True], shown = []\<rparr>) = Returned False"
proof -
  let ?env = "\<lparr>XPUB_ENCODED_LEN = 113, btc_common_coin_name = (\<lambda>c. ''Bitcoin''),
        apps_common_bip32_xpub_from_protobuf = (\<lambda>x::nat. Some x),
        btc_common_encode_xpub = (\<lambda>(k::nat) ty. Some ''xpub'')\<rparr>"
  let ?m = "\<lparr>threshold = 1, xpubs = [5], our_xpub_index = 0,
        script_type = BTCScriptConfig_Multisig_ScriptType_other 3\<rparr> :: nat BTCScriptConfig_Multisig"
  have h: "length (body (params_basic ?env ''Register'' BTCCoin_BTC ?m)) < 100"
    by (simp add: params_basic_def xpubs_count_def dec.simps digit_char_def)
  have c: "\<forall>c. BTCCoin_BTC \<noteq> BTCCoin_other c" by simp
  from unrecognized_coin_or_family_aborts[where env = ?env and ttl = "''Register''"
      and coin = BTCCoin_BTC and m = ?m and fam = "BTCRegisterScriptConfigRequest_XPubType_other 9"
      and nm = "''account''" and as = "[]" and sh = "[]"] h c
  show ?thesis by auto
qed

subsection \<open>The cosigner confirmations\<close>

text \<open>
  The call after the summary and the name, for a resolved xpub type: the loop of
  \<open>cosigner_loop_run\<close> from index \<open>0\<close>, with \<open>xpub_str_at\<close> still folded.
\<close>

lemma cosigner_sequence_by_xpub_str:
  fixes env :: "('xpub, 'key) btc_env" and m :: "'xpub BTCScriptConfig_Multisig"
  assumes fits: "\<forall>key ty s. btc_common_encode_xpub env key ty = Some s \<longrightarrow> length s < XPUB_ENCODED_LEN env"
    and small: "xpubs_count m < 2 ^ 32"
    and basic: "length (body (params_basic env ttl coin m)) < 100"
    and res: "xpub_type_resolution coin (script_type m) fam = Resolved t"
    and answered: "xpubs_count m \<le> length as"
  shows "let run = apps_btc_confirm_multisig env ttl coin nm m True fam
                     \<lparr>answers = True # True # as, shown = []\<rparr>;
             n = xpubs_count m
         in \<exists>k\<le>n.
              shown (snd run) = [params_basic env ttl coin m, params_name ttl nm]
                @ map (\<lambda>i. \<lparr>title = ttl,
                             body = ''Cosigner '' @ dec (i + 1) @ ''/'' @ dec n
                                      @ (if i = unat (our_xpub_index m) then '' (this device)'' else [])
                                      @ '': '' @ the (xpub_str_at env m t i),
                             scrollable = True, longtouch = (i = n - 1),
                             accept_is_nextarrow = True\<rparr>) [0..<k]
              \<and> (\<forall>i<k. xpub_str_at env m t i \<noteq> None)
              \<and> (fst run = Returned True \<and> k = n \<and> (\<forall>i<n. as ! i)
                 \<or> fst run = Returned False \<and> k < n \<and> (\<forall>i<k. as ! i) \<and> xpub_str_at env m t k = None
                 \<or> fst run = Returned False \<and> 0 < k \<and> (\<forall>i<k - 1. as ! i) \<and> \<not> as ! (k - 1))
              \<and> (\<forall>i<n. xpub_str_at env m t i = None \<or> \<not> as ! i \<longrightarrow>
                    fst run = Returned False \<and> k \<le> i + 1 \<and> (xpub_str_at env m t i = None \<longrightarrow> k \<le> i))"
proof -
  define n where "n = xpubs_count m"
  define ui2 where "ui2 = \<lparr>answers = as, shown = [params_basic env ttl coin m, params_name ttl nm]\<rparr>"
  define R where "R = cosigner_loop env ttl m t n 0 \<lparr>answers = drop 0 as, shown = [params_basic env ttl coin m, params_name ttl nm]\<rparr>"
  define prompt where "prompt = (\<lambda>i. \<lparr>title = ttl,
                             body = ''Cosigner '' @ dec (i + 1) @ ''/'' @ dec n
                                      @ (if i = unat (our_xpub_index m) then '' (this device)'' else [])
                                      @ '': '' @ the (xpub_str_at env m t i),
                             scrollable = True, longtouch = (i = n - 1),
                             accept_is_nextarrow = True\<rparr>)"
  have run: "apps_btc_confirm_multisig env ttl coin nm m True fam \<lparr>answers = True # True # as, shown = []\<rparr> = R"
    using res by (simp add: confirm_multisig_after_prompts[OF basic] R_def n_def)
  have "n < 2 ^ 32" "n \<le> length as" "0 \<le> n" using small answered by (simp_all add: n_def)
  from cosigner_loop_run[OF fits this, where ttl = ttl and m = m and t = t
        and shs = "[params_basic env ttl coin m, params_name ttl nm]", folded R_def prompt_def]
  obtain k where k: "k \<le> n" "\<forall>j. j < k \<longrightarrow> xpub_str_at env m t j \<noteq> None"
     "snd R = \<lparr>answers = drop k as, shown = [params_basic env ttl coin m, params_name ttl nm] @ map prompt [0..<k]\<rparr>"
     "k = n \<and> (\<forall>j. j < k \<longrightarrow> as ! j) \<and> fst R = Returned True
      \<or> k < n \<and> (\<forall>j. j < k \<longrightarrow> as ! j) \<and> xpub_str_at env m t k = None \<and> fst R = Returned False
      \<or> 0 < k \<and> (\<forall>j. j < k - 1 \<longrightarrow> as ! j) \<and> \<not> as ! (k - 1) \<and> fst R = Returned False"
    by auto
  have c: "\<forall>i<n. xpub_str_at env m t i = None \<or> \<not> as ! i \<longrightarrow>
                    fst R = Returned False \<and> k \<le> i + 1 \<and> (xpub_str_at env m t i = None \<longrightarrow> k \<le> i)"
  proof (intro allI impI)
    fix i assume i: "i < n" and f: "xpub_str_at env m t i = None \<or> \<not> as ! i"
    from k(4) show "fst R = Returned False \<and> k \<le> i + 1 \<and> (xpub_str_at env m t i = None \<longrightarrow> k \<le> i)"
    proof (elim disjE conjE)
      assume "k = n" "\<forall>j. j < k \<longrightarrow> as ! j"
      with i f k(2) show ?thesis by auto
    next
      assume "k < n" "\<forall>j. j < k \<longrightarrow> as ! j" "fst R = Returned False"
      moreover have "\<not> i < k" using f k(2) calculation(2) by auto
      ultimately show ?thesis by simp
    next
      assume a: "0 < k" "\<forall>j. j < k - 1 \<longrightarrow> as ! j" "fst R = Returned False"
      have "xpub_str_at env m t i = None \<Longrightarrow> \<not> i < k" using k(2) by auto
      moreover have "\<not> as ! i \<Longrightarrow> \<not> i < k - 1" using a(2) by auto
      ultimately show ?thesis using a(3) f by (auto simp: not_less)
    qed
  qed
  have "\<exists>k\<le>n. shown (snd R) = [params_basic env ttl coin m, params_name ttl nm] @ map prompt [0..<k]
              \<and> (\<forall>i<k. xpub_str_at env m t i \<noteq> None)
              \<and> (fst R = Returned True \<and> k = n \<and> (\<forall>i<n. as ! i)
                 \<or> fst R = Returned False \<and> k < n \<and> (\<forall>i<k. as ! i) \<and> xpub_str_at env m t k = None
                 \<or> fst R = Returned False \<and> 0 < k \<and> (\<forall>i<k - 1. as ! i) \<and> \<not> as ! (k - 1))
              \<and> (\<forall>i<n. xpub_str_at env m t i = None \<or> \<not> as ! i \<longrightarrow>
                    fst R = Returned False \<and> k \<le> i + 1 \<and> (xpub_str_at env m t i = None \<longrightarrow> k \<le> i))"
  proof (intro exI[of _ k] conjI)
    show "k \<le> n" by (rule k(1))
    show "shown (snd R) = [params_basic env ttl coin m, params_name ttl nm] @ map prompt [0..<k]"
      by (simp add: k(3))
    show "\<forall>i<k. xpub_str_at env m t i \<noteq> None" using k(2) by simp
    show "fst R = Returned True \<and> k = n \<and> (\<forall>i<n. as ! i)
                 \<or> fst R = Returned False \<and> k < n \<and> (\<forall>i<k. as ! i) \<and> xpub_str_at env m t k = None
                 \<or> fst R = Returned False \<and> 0 < k \<and> (\<forall>i<k - 1. as ! i) \<and> \<not> as ! (k - 1)"
      using k(4) by blast
    show "\<forall>i<n. xpub_str_at env m t i = None \<or> \<not> as ! i \<longrightarrow>
                    fst R = Returned False \<and> k \<le> i + 1 \<and> (xpub_str_at env m t i = None \<longrightarrow> k \<le> i)"
      by (rule c)
  qed
  then show ?thesis
    unfolding Let_def run prompt_def n_def .
qed

text \<open>
  \<open>xpub_str_at\<close> in terms of the two collaborators: it is \<open>None\<close> exactly when the key
  does not decode, or decodes and does not encode in the requested type; otherwise it is
  the encoding of the decoded key.
\<close>

lemma xpub_str_at_None_iff:
  "xpub_str_at env m t i = None \<longleftrightarrow>
     (apps_common_bip32_xpub_from_protobuf env (xpubs m ! i) = None
      \<or> (\<exists>key. apps_common_bip32_xpub_from_protobuf env (xpubs m ! i) = Some key
                \<and> btc_common_encode_xpub env key t = None))"
  by (auto simp: xpub_str_at_def split: option.splits)

lemma xpub_str_at_Some_iff:
  "xpub_str_at env m t i = Some s \<longleftrightarrow>
     (\<exists>key. apps_common_bip32_xpub_from_protobuf env (xpubs m ! i) = Some key
            \<and> btc_common_encode_xpub env key t = Some s)"
  by (auto simp: xpub_str_at_def split: option.splits)

text \<open>Prompts given index by index are the list of them.\<close>

lemma drop2_by_nth:
  "length xs = k + 2 \<Longrightarrow> \<forall>i<k. xs ! (i + 2) = f i \<Longrightarrow> drop 2 xs = map f [0..<k]"
  by (auto simp: list_eq_iff_nth_eq)

text \<open>
  Claim C2. Let the encoder respect the size of \<open>xpub_str\<close>, the xpub type be resolved to
  \<open>t\<close>, the summary and the name be accepted, and the user answer every prompt (\<open>as ! i\<close> is
  the answer to the prompt of cosigner \<open>i\<close>). Then the prompts are the summary, the name and
  one prompt for each of the cosigners \<open>0\<close> to \<open>k - 1\<close>, in ascending order. For each of
  them \<open>apps_common_bip32_xpub_from_protobuf\<close> decodes the key and
  \<open>btc_common_encode_xpub\<close> encodes it in the type \<open>t\<close>; the prompt shows this encoding,
  is labelled with \<open>i + 1\<close> and the number \<open>n\<close> of cosigners, carries "(this device)"
  exactly when \<open>i\<close> is \<open>our_xpub_index\<close>, and asks for the long touch exactly when
  \<open>i = n - 1\<close>. The call returns true after all \<open>n\<close> prompts were accepted; otherwise it
  returns false at the first index whose key does not decode or does not encode (before
  its prompt) or whose prompt is declined. Hence a failure at index \<open>i\<close> of any of the
  three kinds makes the call return false with no prompt for an index above \<open>i\<close>.
\<close>

theorem cosigner_confirmation_sequence:
  fixes env :: "('xpub, 'key) btc_env" and m :: "'xpub BTCScriptConfig_Multisig"
  assumes fits: "\<forall>key ty s. btc_common_encode_xpub env key ty = Some s \<longrightarrow> length s < XPUB_ENCODED_LEN env"
    and small: "xpubs_count m < 2 ^ 32"
    and basic: "length (body (params_basic env ttl coin m)) < 100"
    and res: "xpub_type_resolution coin (script_type m) fam = Resolved t"
    and answered: "xpubs_count m \<le> length as"
  shows "let run = apps_btc_confirm_multisig env ttl coin nm m True fam
                     \<lparr>answers = True # True # as, shown = []\<rparr>;
             n = xpubs_count m
         in \<exists>k\<le>n.
              length (shown (snd run)) = k + 2
              \<and> shown (snd run) ! 0 = params_basic env ttl coin m
              \<and> shown (snd run) ! 1 = params_name ttl nm
              \<and> (\<forall>i<k. \<exists>key s.
                    apps_common_bip32_xpub_from_protobuf env (xpubs m ! i) = Some key
                    \<and> btc_common_encode_xpub env key t = Some s
                    \<and> shown (snd run) ! (i + 2) =
                        \<lparr>title = ttl,
                         body = ''Cosigner '' @ dec (i + 1) @ ''/'' @ dec n
                                  @ (if i = unat (our_xpub_index m) then '' (this device)'' else [])
                                  @ '': '' @ s,
                         scrollable = True, longtouch = (i = n - 1),
                         accept_is_nextarrow = True\<rparr>)
              \<and> (fst run = Returned True \<and> k = n \<and> (\<forall>i<n. as ! i)
                 \<or> fst run = Returned False \<and> k < n \<and> (\<forall>i<k. as ! i)
                    \<and> (apps_common_bip32_xpub_from_protobuf env (xpubs m ! k) = None
                       \<or> (\<exists>key. apps_common_bip32_xpub_from_protobuf env (xpubs m ! k) = Some key
                                 \<and> btc_common_encode_xpub env key t = None))
                 \<or> fst run = Returned False \<and> 0 < k \<and> (\<forall>i<k - 1. as ! i) \<and> \<not> as ! (k - 1))
              \<and> (\<forall>i<n.
                    (apps_common_bip32_xpub_from_protobuf env (xpubs m ! i) = None
                     \<or> (\<exists>key. apps_common_bip32_xpub_from_protobuf env (xpubs m ! i) = Some key
                               \<and> btc_common_encode_xpub env key t = None)
                     \<or> \<not> as ! i) \<longrightarrow>
                    fst run = Returned False \<and> k \<le> i + 1
                    \<and> (apps_common_bip32_xpub_from_protobuf env (xpubs m ! i) = None
                        \<or> (\<exists>key. apps_common_bip32_xpub_from_protobuf env (xpubs m ! i) = Some key
                                  \<and> btc_common_encode_xpub env key t = None) \<longrightarrow> k \<le> i))"
proof -
  define n where "n = xpubs_count m"
  define run where "run = apps_btc_confirm_multisig env ttl coin nm m True fam
                     \<lparr>answers = True # True # as, shown = []\<rparr>"
  define prompt where "prompt = (\<lambda>i. \<lparr>title = ttl,
                             body = ''Cosigner '' @ dec (i + 1) @ ''/'' @ dec n
                                      @ (if i = unat (our_xpub_index m) then '' (this device)'' else [])
                                      @ '': '' @ the (xpub_str_at env m t i),
                             scrollable = True, longtouch = (i = n - 1),
                             accept_is_nextarrow = True\<rparr>)"
  define fails where "fails = (\<lambda>i. apps_common_bip32_xpub_from_protobuf env (xpubs m ! i) = None
                     \<or> (\<exists>key. apps_common_bip32_xpub_from_protobuf env (xpubs m ! i) = Some key
                               \<and> btc_common_encode_xpub env key t = None))"
  have fails_iff: "xpub_str_at env m t i = None \<longleftrightarrow> fails i" for i
    unfolding fails_def by (rule xpub_str_at_None_iff)
  from cosigner_sequence_by_xpub_str[OF fits small basic res answered, of nm,
      unfolded Let_def, folded n_def run_def, folded prompt_def, unfolded fails_iff]
  obtain k where kn: "k \<le> n"
    and sh: "shown (snd run) = [params_basic env ttl coin m, params_name ttl nm] @ map prompt [0..<k]"
    and ok: "\<forall>i<k. \<not> fails i"
    and cases: "fst run = Returned True \<and> k = n \<and> (\<forall>i<n. as ! i)
                 \<or> fst run = Returned False \<and> k < n \<and> (\<forall>i<k. as ! i) \<and> fails k
                 \<or> fst run = Returned False \<and> 0 < k \<and> (\<forall>i<k - 1. as ! i) \<and> \<not> as ! (k - 1)"
    and fl: "\<forall>i<n. fails i \<or> \<not> as ! i \<longrightarrow>
                    fst run = Returned False \<and> k \<le> i + 1 \<and> (fails i \<longrightarrow> k \<le> i)"
    by blast
  have len: "length (shown (snd run)) = k + 2" by (simp add: sh)
  have s0: "shown (snd run) ! 0 = params_basic env ttl coin m" by (simp add: sh)
  have s1: "shown (snd run) ! 1 = params_name ttl nm" by (simp add: sh)
  have each: "\<exists>key s.
                    apps_common_bip32_xpub_from_protobuf env (xpubs m ! i) = Some key
                    \<and> btc_common_encode_xpub env key t = Some s
                    \<and> shown (snd run) ! (i + 2) =
                        \<lparr>title = ttl,
                         body = ''Cosigner '' @ dec (i + 1) @ ''/'' @ dec n
                                  @ (if i = unat (our_xpub_index m) then '' (this device)'' else [])
                                  @ '': '' @ s,
                         scrollable = True, longtouch = (i = n - 1),
                         accept_is_nextarrow = True\<rparr>" if "i < k" for i
  proof -
    from ok that have "xpub_str_at env m t i \<noteq> None" by (simp add: fails_iff)
    then obtain s where s: "xpub_str_at env m t i = Some s" by blast
    then obtain key where key: "apps_common_bip32_xpub_from_protobuf env (xpubs m ! i) = Some key"
      "btc_common_encode_xpub env key t = Some s"
      by (auto simp: xpub_str_at_Some_iff)
    have "shown (snd run) ! (i + 2) = prompt i"
      using that by (simp add: sh nth_append)
    with key s show ?thesis by (auto simp: prompt_def)
  qed
  have "\<exists>k\<le>n. length (shown (snd run)) = k + 2
              \<and> shown (snd run) ! 0 = params_basic env ttl coin m
              \<and> shown (snd run) ! 1 = params_name ttl nm
              \<and> (\<forall>i<k. \<exists>key s.
                    apps_common_bip32_xpub_from_protobuf env (xpubs m ! i) = Some key
                    \<and> btc_common_encode_xpub env key t = Some s
                    \<and> shown (snd run) ! (i + 2) =
                        \<lparr>title = ttl,
                         body = ''Cosigner '' @ dec (i + 1) @ ''/'' @ dec n
                                  @ (if i = unat (our_xpub_index m) then '' (this device)'' else [])
                                  @ '': '' @ s,
                         scrollable = True, longtouch = (i = n - 1),
                         accept_is_nextarrow = True\<rparr>)
              \<and> (fst run = Returned True \<and> k = n \<and> (\<forall>i<n. as ! i)
                 \<or> fst run = Returned False \<and> k < n \<and> (\<forall>i<k. as ! i) \<and> fails k
                 \<or> fst run = Returned False \<and> 0 < k \<and> (\<forall>i<k - 1. as ! i) \<and> \<not> as ! (k - 1))
              \<and> (\<forall>i<n. fails i \<or> \<not> as ! i \<longrightarrow>
                    fst run = Returned False \<and> k \<le> i + 1 \<and> (fails i \<longrightarrow> k \<le> i))"
    using kn len s0 s1 each cases fl by blast
  then show ?thesis
    unfolding Let_def run_def[symmetric] n_def[symmetric] fails_def
    by (simp only: disj_assoc)
qed

text \<open>
  Three cosigners, the device second. When the second confirmation is declined, the call
  returns false and the cosigner prompts are those of the first two keys, showing their
  encodings. When every confirmation is accepted, the call returns true after the prompts
  of all three keys, and only the last asks for the long touch.
\<close>

theorem cosigner_confirmation_sequence_witness:
  "fst (apps_btc_confirm_multisig
       \<lparr>XPUB_ENCODED_LEN = 113, btc_common_coin_name = (\<lambda>c. ''Bitcoin''),
        apps_common_bip32_xpub_from_protobuf = (\<lambda>x. Some (x @ ''-key'')),
        btc_common_encode_xpub = (\<lambda>k ty. if ty = BTCPubRequest_XPubType_CAPITAL_ZPUB
                                            then Some (''Zpub:'' @ take 8 k) else None)\<rparr>
       ''Register'' BTCCoin_BTC ''account''
       \<lparr>threshold = 2, xpubs = [''a'', ''b'', ''c''], our_xpub_index = 1,
        script_type = BTCScriptConfig_Multisig_ScriptType_P2WSH\<rparr>
       True BTCRegisterScriptConfigRequest_XPubType_AUTO_ELECTRUM
       \<lparr>answers = [True, True, True, False, True], shown = []\<rparr>) = Returned False
   \<and> map (\<lambda>p. (body p, longtouch p)) (drop 2 (shown (snd (apps_btc_confirm_multisig
       \<lparr>XPUB_ENCODED_LEN = 113, btc_common_coin_name = (\<lambda>c. ''Bitcoin''),
        apps_common_bip32_xpub_from_protobuf = (\<lambda>x. Some (x @ ''-key'')),
        btc_common_encode_xpub = (\<lambda>k ty. if ty = BTCPubRequest_XPubType_CAPITAL_ZPUB
                                            then Some (''Zpub:'' @ take 8 k) else None)\<rparr>
       ''Register'' BTCCoin_BTC ''account''
       \<lparr>threshold = 2, xpubs = [''a'', ''b'', ''c''], our_xpub_index = 1,
        script_type = BTCScriptConfig_Multisig_ScriptType_P2WSH\<rparr>
       True BTCRegisterScriptConfigRequest_XPubType_AUTO_ELECTRUM
       \<lparr>answers = [True, True, True, False, True], shown = []\<rparr>))))
     = [(''Cosigner 1/3: Zpub:a-key'', False),
        (''Cosigner 2/3 (this device): Zpub:b-key'', False)]
   \<and> fst (apps_btc_confirm_multisig
       \<lparr>XPUB_ENCODED_LEN = 113, btc_common_coin_name = (\<lambda>c. ''Bitcoin''),
        apps_common_bip32_xpub_from_protobuf = (\<lambda>x. Some (x @ ''-key'')),
        btc_common_encode_xpub = (\<lambda>k ty. if ty = BTCPubRequest_XPubType_CAPITAL_ZPUB
                                            then Some (''Zpub:'' @ take 8 k) else None)\<rparr>
       ''Register'' BTCCoin_BTC ''account''
       \<lparr>threshold = 2, xpubs = [''a'', ''b'', ''c''], our_xpub_index = 1,
        script_type = BTCScriptConfig_Multisig_ScriptType_P2WSH\<rparr>
       True BTCRegisterScriptConfigRequest_XPubType_AUTO_ELECTRUM
       \<lparr>answers = [True, True, True, True, True], shown = []\<rparr>) = Returned True
   \<and> map (\<lambda>p. (body p, longtouch p)) (drop 2 (shown (snd (apps_btc_confirm_multisig
       \<lparr>XPUB_ENCODED_LEN = 113, btc_common_coin_name = (\<lambda>c. ''Bitcoin''),
        apps_common_bip32_xpub_from_protobuf = (\<lambda>x. Some (x @ ''-key'')),
        btc_common_encode_xpub = (\<lambda>k ty. if ty = BTCPubRequest_XPubType_CAPITAL_ZPUB
                                            then Some (''Zpub:'' @ take 8 k) else None)\<rparr>
       ''Register'' BTCCoin_BTC ''account''
       \<lparr>threshold = 2, xpubs = [''a'', ''b'', ''c''], our_xpub_index = 1,
        script_type = BTCScriptConfig_Multisig_ScriptType_P2WSH\<rparr>
       True BTCRegisterScriptConfigRequest_XPubType_AUTO_ELECTRUM
       \<lparr>answers = [True, True, True, True, True], shown = []\<rparr>))))
     = [(''Cosigner 1/3: Zpub:a-key'', False),
        (''Cosigner 2/3 (this device): Zpub:b-key'', False),
        (''Cosigner 3/3: Zpub:c-key'', True)]"
proof -
  let ?env = "\<lparr>XPUB_ENCODED_LEN = 113, btc_common_coin_name = (\<lambda>c. ''Bitcoin''),
        apps_common_bip32_xpub_from_protobuf = (\<lambda>x. Some (x @ ''-key'')),
        btc_common_encode_xpub = (\<lambda>k ty. if ty = BTCPubRequest_XPubType_CAPITAL_ZPUB
                                            then Some (''Zpub:'' @ take 8 k) else None)\<rparr>"
  let ?m = "\<lparr>threshold = 2, xpubs = [''a'', ''b'', ''c''], our_xpub_index = 1,
        script_type = BTCScriptConfig_Multisig_ScriptType_P2WSH\<rparr> :: string BTCScriptConfig_Multisig"
  let ?Z = BTCPubRequest_XPubType_CAPITAL_ZPUB
  let ?run = "\<lambda>ans. apps_btc_confirm_multisig ?env ''Register'' BTCCoin_BTC ''account'' ?m
       True BTCRegisterScriptConfigRequest_XPubType_AUTO_ELECTRUM
       \<lparr>answers = True # True # ans, shown = []\<rparr>"
  let ?P = "\<lambda>i. \<lparr>title = ''Register'',
                 body = ''Cosigner '' @ dec (i + 1) @ ''/'' @ dec 3
                          @ (if i = unat (our_xpub_index ?m) then '' (this device)'' else [])
                          @ '': '' @ ''Zpub:'' @ take 8 (xpubs ?m ! i @ ''-key''),
                 scrollable = True, longtouch = (i = 3 - 1),
                 accept_is_nextarrow = True\<rparr>"
  have h1: "\<forall>key ty s. btc_common_encode_xpub ?env key ty = Some s \<longrightarrow> length s < XPUB_ENCODED_LEN ?env"
    by auto
  have h2: "xpubs_count ?m < 2 ^ 32" by (simp add: xpubs_count_def)
  have h3: "length (body (params_basic ?env ''Register'' BTCCoin_BTC ?m)) < 100"
    by (simp add: params_basic_def xpubs_count_def dec.simps digit_char_def)
  have h4: "xpub_type_resolution BTCCoin_BTC (script_type ?m)
      BTCRegisterScriptConfigRequest_XPubType_AUTO_ELECTRUM = Resolved ?Z"
    by simp
  have n: "xpubs_count ?m = 3" by (simp add: xpubs_count_def)
  have lt3: "i < 3 \<longleftrightarrow> i = 0 \<or> i = 1 \<or> i = 2" for i :: nat by linarith
  have lt2: "i < 2 \<longleftrightarrow> i = 0 \<or> i = 1" for i :: nat by linarith
  have all3: "(\<forall>i<(3::nat). Q i) \<longleftrightarrow> Q 0 \<and> Q 1 \<and> Q 2" for Q
    unfolding lt3 by blast
  have all2: "(\<forall>i<(2::nat). Q i) \<longleftrightarrow> Q 0 \<and> Q 1" for Q
    unfolding lt2 by blast
  have rA: "fst (?run [True, False, True]) = Returned False
      \<and> drop 2 (shown (snd (?run [True, False, True]))) = map ?P [0..<2]"
  proof -
  have gA: "xpubs_count ?m \<le> length [True, False, True]" by (simp add: xpubs_count_def)
  from cosigner_confirmation_sequence[OF h1 h2 h3 h4 gA, where nm = "''account''", unfolded Let_def n]
  obtain k where k3: "k \<le> 3"
    and len: "length (shown (snd (?run [True, False, True]))) = k + 2"
    and each: "\<forall>i<k. \<exists>key s.
                    apps_common_bip32_xpub_from_protobuf ?env (xpubs ?m ! i) = Some key
                    \<and> btc_common_encode_xpub ?env key ?Z = Some s
                    \<and> shown (snd (?run [True, False, True])) ! (i + 2) =
                        \<lparr>title = ''Register'',
                         body = ''Cosigner '' @ dec (i + 1) @ ''/'' @ dec 3
                                  @ (if i = unat (our_xpub_index ?m) then '' (this device)'' else [])
                                  @ '': '' @ s,
                         scrollable = True, longtouch = (i = 3 - 1),
                         accept_is_nextarrow = True\<rparr>"
    and cases: "fst (?run [True, False, True]) = Returned True \<and> k = 3 \<and> (\<forall>i<3. [True, False, True] ! i)
                 \<or> fst (?run [True, False, True]) = Returned False \<and> k < 3 \<and> (\<forall>i<k. [True, False, True] ! i)
                    \<and> (apps_common_bip32_xpub_from_protobuf ?env (xpubs ?m ! k) = None
                       \<or> (\<exists>key. apps_common_bip32_xpub_from_protobuf ?env (xpubs ?m ! k) = Some key
                                 \<and> btc_common_encode_xpub ?env key ?Z = None))
                 \<or> fst (?run [True, False, True]) = Returned False \<and> 0 < k \<and> (\<forall>i<k - 1. [True, False, True] ! i)
                    \<and> \<not> [True, False, True] ! (k - 1)"
    by blast
  have nofail: "\<not> (apps_common_bip32_xpub_from_protobuf ?env (xpubs ?m ! k) = None
                       \<or> (\<exists>key. apps_common_bip32_xpub_from_protobuf ?env (xpubs ?m ! k) = Some key
                                 \<and> btc_common_encode_xpub ?env key ?Z = None))"
    by simp
  from k3 consider "k = 0" | "k = 1" | "k = 2" | "k = 3" by linarith
  then have kv: "k = 2 \<and> fst (?run [True, False, True]) = Returned False"
  proof cases
    case 1 with cases nofail show ?thesis by (simp add: all3 all2)
  next
    case 2 with cases nofail show ?thesis by (simp add: all3 all2)
  next
    case 3 with cases nofail show ?thesis by (simp add: all3 all2)
  next
    case 4 with cases nofail show ?thesis by (simp add: all3 all2)
  qed
  have "\<forall>i<k. shown (snd (?run [True, False, True])) ! (i + 2) = ?P i"
  proof (intro allI impI)
    fix i assume "i < k"
    with each obtain key s where
      "apps_common_bip32_xpub_from_protobuf ?env (xpubs ?m ! i) = Some key"
      "btc_common_encode_xpub ?env key ?Z = Some s"
      "shown (snd (?run [True, False, True])) ! (i + 2) =
                        \<lparr>title = ''Register'',
                         body = ''Cosigner '' @ dec (i + 1) @ ''/'' @ dec 3
                                  @ (if i = unat (our_xpub_index ?m) then '' (this device)'' else [])
                                  @ '': '' @ s,
                         scrollable = True, longtouch = (i = 3 - 1),
                         accept_is_nextarrow = True\<rparr>"
      by blast
    then show "shown (snd (?run [True, False, True])) ! (i + 2) = ?P i" by auto
  qed
  with len have "drop 2 (shown (snd (?run [True, False, True]))) = map ?P [0..<k]"
    by (rule drop2_by_nth)
  with kv show ?thesis
    by simp
  qed
  
  have rB: "fst (?run [True, True, True]) = Returned True
      \<and> drop 2 (shown (snd (?run [True, True, True]))) = map ?P [0..<3]"
  proof -
  have gB: "xpubs_count ?m \<le> length [True, True, True]" by (simp add: xpubs_count_def)
  from cosigner_confirmation_sequence[OF h1 h2 h3 h4 gB, where nm = "''account''", unfolded Let_def n]
  obtain k where k3: "k \<le> 3"
    and len: "length (shown (snd (?run [True, True, True]))) = k + 2"
    and each: "\<forall>i<k. \<exists>key s.
                    apps_common_bip32_xpub_from_protobuf ?env (xpubs ?m ! i) = Some key
                    \<and> btc_common_encode_xpub ?env key ?Z = Some s
                    \<and> shown (snd (?run [True, True, True])) ! (i + 2) =
                        \<lparr>title = ''Register'',
                         body = ''Cosigner '' @ dec (i + 1) @ ''/'' @ dec 3
                                  @ (if i = unat (our_xpub_index ?m) then '' (this device)'' else [])
                                  @ '': '' @ s,
                         scrollable = True, longtouch = (i = 3 - 1),
                         accept_is_nextarrow = True\<rparr>"
    and cases: "fst (?run [True, True, True]) = Returned True \<and> k = 3 \<and> (\<forall>i<3. [True, True, True] ! i)
                 \<or> fst (?run [True, True, True]) = Returned False \<and> k < 3 \<and> (\<forall>i<k. [True, True, True] ! i)
                    \<and> (apps_common_bip32_xpub_from_protobuf ?env (xpubs ?m ! k) = None
                       \<or> (\<exists>key. apps_common_bip32_xpub_from_protobuf ?env (xpubs ?m ! k) = Some key
                                 \<and> btc_common_encode_xpub ?env key ?Z = None))
                 \<or> fst (?run [True, True, True]) = Returned False \<and> 0 < k \<and> (\<forall>i<k - 1. [True, True, True] ! i)
                    \<and> \<not> [True, True, True] ! (k - 1)"
    by blast
  have nofail: "\<not> (apps_common_bip32_xpub_from_protobuf ?env (xpubs ?m ! k) = None
                       \<or> (\<exists>key. apps_common_bip32_xpub_from_protobuf ?env (xpubs ?m ! k) = Some key
                                 \<and> btc_common_encode_xpub ?env key ?Z = None))"
    by simp
  from k3 consider "k = 0" | "k = 1" | "k = 2" | "k = 3" by linarith
  then have kv: "k = 3 \<and> fst (?run [True, True, True]) = Returned True"
  proof cases
    case 1 with cases nofail show ?thesis by (simp add: all3 all2)
  next
    case 2 with cases nofail show ?thesis by (simp add: all3 all2)
  next
    case 3 with cases nofail show ?thesis by (simp add: all3 all2)
  next
    case 4 with cases nofail show ?thesis by (simp add: all3 all2)
  qed
  have "\<forall>i<k. shown (snd (?run [True, True, True])) ! (i + 2) = ?P i"
  proof (intro allI impI)
    fix i assume "i < k"
    with each obtain key s where
      "apps_common_bip32_xpub_from_protobuf ?env (xpubs ?m ! i) = Some key"
      "btc_common_encode_xpub ?env key ?Z = Some s"
      "shown (snd (?run [True, True, True])) ! (i + 2) =
                        \<lparr>title = ''Register'',
                         body = ''Cosigner '' @ dec (i + 1) @ ''/'' @ dec 3
                                  @ (if i = unat (our_xpub_index ?m) then '' (this device)'' else [])
                                  @ '': '' @ s,
                         scrollable = True, longtouch = (i = 3 - 1),
                         accept_is_nextarrow = True\<rparr>"
      by blast
    then show "shown (snd (?run [True, True, True])) ! (i + 2) = ?P i" by auto
  qed
  with len have "drop 2 (shown (snd (?run [True, True, True]))) = map ?P [0..<k]"
    by (rule drop2_by_nth)
  with kv show ?thesis
    by simp
  qed
  
  have u: "[0..<2] = [0, Suc 0]" "[0..<3] = [0, Suc 0, 2]"
    by (simp_all add: upt_conv_Cons)
  from rA rB show ?thesis
    by (simp add: u dec.simps digit_char_def)
qed

section \<open>Properties of \<open>workflow_restore_from_mnemonic\<close>\<close>

subsection \<open>Auxiliary facts: joining the words\<close>












subsection \<open>Auxiliary facts: the word-entry loop\<close>

text \<open>
  How the loop ends does not depend on the record of the calls; the array keeps its
  length; and when the loop completes, every slot below \<open>num_words\<close> holds a word that
  an accepted entry stored.
\<close>

lemma word_loop_fst_nil:
  "fst (word_loop n ws i script c) = fst (word_loop n ws i script [])"
proof (induction script arbitrary: ws i c)
  case Nil
  then show ?case by (simp add: Let_def)
next
  case (Cons r rs)
  show ?case
  proof (cases "i < n")
    case False
    then show ?thesis by simp
  next
    case True
    have ih: "fst (word_loop n ws' i' rs (c @ [e])) = fst (word_loop n ws' i' rs [e])" for ws' i' e
      using Cons.IH[of ws' i' "c @ [e]"] Cons.IH[of ws' i' "[e]"] by simp
    from True show ?thesis
      by (cases r) (simp_all add: Let_def ih)
  qed
qed

lemma word_loop_fst_calls:
  "fst (word_loop n ws i script c) = fst (word_loop n ws i script c')"
  using word_loop_fst_nil[of n ws i script c] word_loop_fst_nil[of n ws i script c'] by simp



text \<open>
  A script that leaves the loop waiting at position \<open>p\<close> can be continued: the loop
  resumes from the state it was waiting in.
\<close>

lemma word_loop_resume:
  assumes "word_loop n ws i pre c = (Words_waiting p ws', c')"
  shows "p < n \<and> word_loop n ws i (pre @ r # rest) c =
     (case r of
        WORKFLOW_TRINARY_INPUT_RESULT_CANCEL \<Rightarrow> (Words_cancel ws', c')
      | WORKFLOW_TRINARY_INPUT_RESULT_DELETE \<Rightarrow>
          word_loop n ws' (if p > 0 then p - 1 else p) rest c'
      | WORKFLOW_TRINARY_INPUT_RESULT_OK entered \<Rightarrow>
          word_loop n (ws'[p := entered]) (p + 1) rest c')"
  using assms
proof (induction pre arbitrary: ws i c)
  case Nil
  then show ?case by (auto simp: Let_def split: if_splits)
next
  case (Cons a pre)
  show ?case
  proof (cases "i < n")
    case False
    with Cons.prems show ?thesis by simp
  next
    case True
    with Cons.prems show ?thesis
      by (cases a) (simp_all add: Let_def Cons.IH)
  qed
qed

lemma word_loop_resume_fst:
  assumes "word_loop n ws i pre c = (Words_waiting p ws', c')"
  shows "fst (word_loop n ws i (pre @ rest) c) = fst (word_loop n ws' p rest c0)"
proof (cases rest)
  case Nil
  from word_loop_resume[OF assms, of WORKFLOW_TRINARY_INPUT_RESULT_CANCEL "[]"] have "p < n" by simp
  with Nil assms show ?thesis by (simp add: Let_def)
next
  case (Cons r rest')
  from word_loop_resume[OF assms, of r rest'] have p: "p < n"
    and eq: "word_loop n ws i (pre @ r # rest') c =
     (case r of
        WORKFLOW_TRINARY_INPUT_RESULT_CANCEL \<Rightarrow> (Words_cancel ws', c')
      | WORKFLOW_TRINARY_INPUT_RESULT_DELETE \<Rightarrow>
          word_loop n ws' (if p > 0 then p - 1 else p) rest' c'
      | WORKFLOW_TRINARY_INPUT_RESULT_OK entered \<Rightarrow>
          word_loop n (ws'[p := entered]) (p + 1) rest' c')"
    by simp_all
  show ?thesis
    unfolding Cons eq using p
    by (cases r) (auto simp: Let_def intro: word_loop_fst_calls)
qed

lemma word_loop_waiting_inv:
  assumes "word_loop n ws i script c = (Words_waiting p ws', c')"
    and "\<forall>x. WORKFLOW_TRINARY_INPUT_RESULT_OK x \<in> set script \<longrightarrow> P x"
    and "\<forall>j<i. P (ws ! j)" and "i \<le> n" and "n \<le> length ws"
  shows "p < n \<and> length ws' = length ws \<and> (\<forall>j<p. P (ws' ! j))"
  using assms
proof (induction script arbitrary: ws i c)
  case Nil
  then show ?case by (auto simp: Let_def split: if_splits)
next
  case (Cons r rs)
  have rest: "\<forall>x. WORKFLOW_TRINARY_INPUT_RESULT_OK x \<in> set rs \<longrightarrow> P x"
    using Cons.prems(2) by simp
  show ?case
  proof (cases "i < n")
    case False
    with Cons.prems show ?thesis by simp
  next
    case True
    define e where "e = (i, if length (ws ! i) \<noteq> 0 then Some (ws ! i) else None)"
    show ?thesis
    proof (cases r)
      case (WORKFLOW_TRINARY_INPUT_RESULT_OK x)
      with True Cons.prems(1) have run:
        "word_loop n (ws[i := x]) (i + 1) rs (c @ [e]) = (Words_waiting p ws', c')"
        by (simp add: Let_def e_def)
      have "P x" using Cons.prems(2) WORKFLOW_TRINARY_INPUT_RESULT_OK by simp
      then have inv: "\<forall>j<i + 1. P (ws[i := x] ! j)"
        using Cons.prems(3,5) True by (auto simp: nth_list_update less_Suc_eq)
      have "i + 1 \<le> n" "n \<le> length (ws[i := x])" using True Cons.prems(5) by simp_all
      from Cons.IH[OF run rest inv this] show ?thesis by simp
    next
      case WORKFLOW_TRINARY_INPUT_RESULT_CANCEL
      with True Cons.prems(1) show ?thesis by (simp add: Let_def)
    next
      case WORKFLOW_TRINARY_INPUT_RESULT_DELETE
      with True Cons.prems(1) have run:
        "word_loop n ws (if i > 0 then i - 1 else i) rs (c @ [e]) = (Words_waiting p ws', c')"
        by (simp add: Let_def e_def)
      have inv: "\<forall>j<(if i > 0 then i - 1 else i). P (ws ! j)" using Cons.prems(3) by auto
      have "(if i > 0 then i - 1 else i) \<le> n" using True by auto
      from Cons.IH[OF run rest inv this Cons.prems(5)] show ?thesis .
    qed
  qed
qed

subsection \<open>Auxiliary facts: \<open>_get_mnemonic\<close>\<close>

text \<open>
  The outcome of \<open>_get_mnemonic\<close> and the contents of \<open>mnemonic_out\<close> are determined by
  the way the word-entry loop ends.
\<close>

lemma wordlist_loaded_iff:
  "list_all (\<lambda>i. keystore_get_bip39_word env i \<noteq> None) [0..<BIP39_WORDLIST_LEN]
     \<longleftrightarrow> (\<forall>i<BIP39_WORDLIST_LEN. keystore_get_bip39_word env i \<noteq> None)"
  by (auto simp: list_all_iff)

lemma get_mnemonic_by_loop:
  assumes "number_of_words_choice script = Some choice" and "pick_number_of_words choice = Inr n"
  shows "(fst (get_mnemonic env script mout w), fst (snd (get_mnemonic env script mout w))) =
     (if \<not> list_all (\<lambda>i. keystore_get_bip39_word env i \<noteq> None) [0..<BIP39_WORDLIST_LEN]
      then (Returned False, mout)
      else case fst (word_loop n (replicate WORKFLOW_RESTORE_FROM_MNEMONIC_MAX_WORDS []) 0
                       (word_inputs script) cs) of
             Words_waiting _ _ \<Rightarrow> (Blocked, mout)
           | Words_cancel _ \<Rightarrow> (Returned False, mout)
           | Words_complete words' \<Rightarrow>
               (Returned True,
                join_words (WORKFLOW_TRINARY_INPUT_MAX_WORD_LENGTH env) n words' mout))"
proof -
  let ?c = "word_calls (workflow_status_blocking (''Enter '' @ dec n @ '' words'') True w)"
  have "fst (word_loop n (replicate WORKFLOW_RESTORE_FROM_MNEMONIC_MAX_WORDS []) 0 (word_inputs script) cs)
      = fst (word_loop n (replicate WORKFLOW_RESTORE_FROM_MNEMONIC_MAX_WORDS []) 0 (word_inputs script) ?c)"
    by (rule word_loop_fst_calls)
  then show ?thesis
    using assms
    by (cases "word_loop n (replicate WORKFLOW_RESTORE_FROM_MNEMONIC_MAX_WORDS []) 0 (word_inputs script) ?c")
       (simp add: get_mnemonic_def Let_def split: word_loop_exit.splits)
qed


subsection \<open>The assembled mnemonic\<close>



subsection \<open>Delete in the word-entry loop\<close>

text \<open>
  Claim C8. Take any entries \<open>pre\<close> (accepted words not empty) after which the loop waits
  at position \<open>p\<close> with the array \<open>words\<close>. A delete at position \<open>0\<close> leaves the loop
  waiting at position \<open>0\<close> with the same array, nothing else happens, and whatever follows
  goes as if the delete had not been entered. A delete at a position \<open>p > 0\<close> leaves the
  loop waiting at position \<open>p - 1\<close> with the same array, and the entry it now asks for is
  preset with the word stored at \<open>p - 1\<close>.
\<close>

theorem delete_outcome:
  assumes "word_loop n (replicate WORKFLOW_RESTORE_FROM_MNEMONIC_MAX_WORDS []) 0 pre calls
             = (Words_waiting p words, calls')"
    and "\<forall>x. WORKFLOW_TRINARY_INPUT_RESULT_OK x \<in> set pre \<longrightarrow> x \<noteq> []"
    and "n \<le> WORKFLOW_RESTORE_FROM_MNEMONIC_MAX_WORDS"
  shows "(p = 0 \<longrightarrow>
            word_loop n (replicate WORKFLOW_RESTORE_FROM_MNEMONIC_MAX_WORDS []) 0
                (pre @ [WORKFLOW_TRINARY_INPUT_RESULT_DELETE]) calls
              = (Words_waiting 0 words,
                 calls' @ [(0, if length (words ! 0) \<noteq> 0 then Some (words ! 0) else None)])
          \<and> (\<forall>rest. fst (word_loop n (replicate WORKFLOW_RESTORE_FROM_MNEMONIC_MAX_WORDS []) 0
                           (pre @ WORKFLOW_TRINARY_INPUT_RESULT_DELETE # rest) calls)
                    = fst (word_loop n (replicate WORKFLOW_RESTORE_FROM_MNEMONIC_MAX_WORDS []) 0
                           (pre @ rest) calls)))
       \<and> (0 < p \<longrightarrow>
            word_loop n (replicate WORKFLOW_RESTORE_FROM_MNEMONIC_MAX_WORDS []) 0
                (pre @ [WORKFLOW_TRINARY_INPUT_RESULT_DELETE]) calls
              = (Words_waiting (p - 1) words, calls' @ [(p - 1, Some (words ! (p - 1)))]))"
proof -
  let ?W = "replicate WORKFLOW_RESTORE_FROM_MNEMONIC_MAX_WORDS ([]::string)"
  have inv: "p < n \<and> length words = length ?W \<and> (\<forall>j<p. words ! j \<noteq> [])"
    by (rule word_loop_waiting_inv[OF assms(1,2)]) (use assms(3) in simp_all)
  note res = word_loop_resume[OF assms(1), of WORKFLOW_TRINARY_INPUT_RESULT_DELETE]
  have a: "p = 0 \<longrightarrow> word_loop n ?W 0 (pre @ [WORKFLOW_TRINARY_INPUT_RESULT_DELETE]) calls
              = (Words_waiting 0 words,
                 calls' @ [(0, if length (words ! 0) \<noteq> 0 then Some (words ! 0) else None)])"
    using res[of "[]"] inv by (simp add: Let_def)
  have b: "p = 0 \<longrightarrow> fst (word_loop n ?W 0 (pre @ WORKFLOW_TRINARY_INPUT_RESULT_DELETE # rest) calls)
                    = fst (word_loop n ?W 0 (pre @ rest) calls)" for rest
    using res[of rest] word_loop_resume_fst[OF assms(1), of rest calls'] by simp
  have c: "0 < p \<longrightarrow> word_loop n ?W 0 (pre @ [WORKFLOW_TRINARY_INPUT_RESULT_DELETE]) calls
              = (Words_waiting (p - 1) words, calls' @ [(p - 1, Some (words ! (p - 1)))])"
    using res[of "[]"] inv by (auto simp: Let_def)
  from a b c show ?thesis by blast
qed

text \<open>A delete as the first entry, and a delete after two accepted words.\<close>

theorem delete_outcome_witness:
  "word_loop 12 (replicate WORKFLOW_RESTORE_FROM_MNEMONIC_MAX_WORDS []) 0
      [WORKFLOW_TRINARY_INPUT_RESULT_DELETE] [] = (Words_waiting 0 (replicate 24 []), [(0, None), (0, None)])
   \<and> fst (word_loop 12 (replicate WORKFLOW_RESTORE_FROM_MNEMONIC_MAX_WORDS []) 0
      [WORKFLOW_TRINARY_INPUT_RESULT_DELETE, WORKFLOW_TRINARY_INPUT_RESULT_CANCEL] [])
      = fst (word_loop 12 (replicate WORKFLOW_RESTORE_FROM_MNEMONIC_MAX_WORDS []) 0
      [WORKFLOW_TRINARY_INPUT_RESULT_CANCEL] [])
   \<and> snd (word_loop 12 (replicate WORKFLOW_RESTORE_FROM_MNEMONIC_MAX_WORDS []) 0
      [WORKFLOW_TRINARY_INPUT_RESULT_OK ''abandon'', WORKFLOW_TRINARY_INPUT_RESULT_OK ''ability'',
       WORKFLOW_TRINARY_INPUT_RESULT_DELETE] [])
      = [(0, None), (1, None), (2, None), (1, Some ''ability'')]"
proof -
  let ?W = "replicate WORKFLOW_RESTORE_FROM_MNEMONIC_MAX_WORDS ([]::string)"
  have n: "(12::nat) \<le> WORKFLOW_RESTORE_FROM_MNEMONIC_MAX_WORDS"
    by (simp add: WORKFLOW_RESTORE_FROM_MNEMONIC_MAX_WORDS_def)
  have s0: "word_loop 12 ?W 0 [] [] = (Words_waiting 0 (replicate 24 []), [(0, None)])"
    by (simp add: WORKFLOW_RESTORE_FROM_MNEMONIC_MAX_WORDS_def)
  have e0: "\<forall>x. WORKFLOW_TRINARY_INPUT_RESULT_OK x \<in> set [] \<longrightarrow> x \<noteq> []" by simp
  have s2: "word_loop 12 ?W 0
      [WORKFLOW_TRINARY_INPUT_RESULT_OK ''abandon'', WORKFLOW_TRINARY_INPUT_RESULT_OK ''ability''] []
      = (Words_waiting 2 ((replicate 24 [])[0 := ''abandon'', 1 := ''ability'']),
         [(0, None), (1, None), (2, None)])"
    by (simp add: WORKFLOW_RESTORE_FROM_MNEMONIC_MAX_WORDS_def)
  have e2: "\<forall>x. WORKFLOW_TRINARY_INPUT_RESULT_OK x
      \<in> set [WORKFLOW_TRINARY_INPUT_RESULT_OK ''abandon'', WORKFLOW_TRINARY_INPUT_RESULT_OK ''ability'']
      \<longrightarrow> x \<noteq> []" by auto
  from delete_outcome[OF s0 e0 n] delete_outcome[OF s2 e2 n]
  show ?thesis by (simp add: Let_def WORKFLOW_RESTORE_FROM_MNEMONIC_MAX_WORDS_def)
qed

subsection \<open>Delete followed by the same word\<close>

text \<open>
  Claim C9. Take any entries \<open>pre\<close> after which the loop waits at a position \<open>p > 0\<close> with
  the array \<open>words\<close>. Entering a delete and then accepting again the word stored at
  \<open>p - 1\<close> changes nothing: whatever entries follow, the loop ends the same way with
  the same array as without the two entries, and \<open>_get_mnemonic\<close> has the same outcome
  and leaves the same string in \<open>mnemonic_out\<close>.
\<close>

theorem delete_then_reaccept:
  assumes st: "word_loop n (replicate WORKFLOW_RESTORE_FROM_MNEMONIC_MAX_WORDS []) 0 pre calls
             = (Words_waiting p words, calls')"
    and p: "0 < p"
  shows "fst (word_loop n (replicate WORKFLOW_RESTORE_FROM_MNEMONIC_MAX_WORDS []) 0
                (pre @ WORKFLOW_TRINARY_INPUT_RESULT_DELETE
                     # WORKFLOW_TRINARY_INPUT_RESULT_OK (words ! (p - 1)) # post) calls)
           = fst (word_loop n (replicate WORKFLOW_RESTORE_FROM_MNEMONIC_MAX_WORDS []) 0
                (pre @ post) calls)
       \<and> (\<forall>env script choice mout w.
             number_of_words_choice script = Some choice \<and> pick_number_of_words choice = Inr n \<longrightarrow>
               fst (get_mnemonic env
                      (script\<lparr>word_inputs := pre @ WORKFLOW_TRINARY_INPUT_RESULT_DELETE
                          # WORKFLOW_TRINARY_INPUT_RESULT_OK (words ! (p - 1)) # post\<rparr>) mout w)
                 = fst (get_mnemonic env (script\<lparr>word_inputs := pre @ post\<rparr>) mout w)
               \<and> fst (snd (get_mnemonic env
                      (script\<lparr>word_inputs := pre @ WORKFLOW_TRINARY_INPUT_RESULT_DELETE
                          # WORKFLOW_TRINARY_INPUT_RESULT_OK (words ! (p - 1)) # post\<rparr>) mout w))
                 = fst (snd (get_mnemonic env (script\<lparr>word_inputs := pre @ post\<rparr>) mout w)))"
proof -
  let ?W = "replicate WORKFLOW_RESTORE_FROM_MNEMONIC_MAX_WORDS ([]::string)"
  let ?s1 = "pre @ WORKFLOW_TRINARY_INPUT_RESULT_DELETE
                     # WORKFLOW_TRINARY_INPUT_RESULT_OK (words ! (p - 1)) # post"
  from word_loop_resume[OF st, of WORKFLOW_TRINARY_INPUT_RESULT_DELETE
      "WORKFLOW_TRINARY_INPUT_RESULT_OK (words ! (p - 1)) # post"] p
  have pn: "p < n" and
    "word_loop n ?W 0 ?s1 calls
       = word_loop n words (p - 1) (WORKFLOW_TRINARY_INPUT_RESULT_OK (words ! (p - 1)) # post) calls'"
    by simp_all
  moreover have "fst (word_loop n words (p - 1) (WORKFLOW_TRINARY_INPUT_RESULT_OK (words ! (p - 1)) # post) calls')
      = fst (word_loop n words p post calls')"
    using pn p by (auto simp: Let_def intro: word_loop_fst_calls)
  ultimately have loop: "fst (word_loop n ?W 0 ?s1 calls) = fst (word_loop n ?W 0 (pre @ post) calls)"
    using word_loop_resume_fst[OF st, of post calls'] by simp
  have "fst (get_mnemonic env (script\<lparr>word_inputs := ?s1\<rparr>) mout w)
          = fst (get_mnemonic env (script\<lparr>word_inputs := pre @ post\<rparr>) mout w)
        \<and> fst (snd (get_mnemonic env (script\<lparr>word_inputs := ?s1\<rparr>) mout w))
          = fst (snd (get_mnemonic env (script\<lparr>word_inputs := pre @ post\<rparr>) mout w))"
    if ch: "number_of_words_choice script = Some choice" "pick_number_of_words choice = Inr n"
    for env script choice mout w
  proof -
    have a: "number_of_words_choice (script\<lparr>word_inputs := ws\<rparr>) = Some choice" for ws
      using ch(1) by simp
    from get_mnemonic_by_loop[OF a[of ?s1] ch(2), where env = env and mout = mout and w = w and cs = calls]
         get_mnemonic_by_loop[OF a[of "pre @ post"] ch(2), where env = env and mout = mout and w = w and cs = calls]
         loop
    have "(fst (get_mnemonic env (script\<lparr>word_inputs := ?s1\<rparr>) mout w),
           fst (snd (get_mnemonic env (script\<lparr>word_inputs := ?s1\<rparr>) mout w)))
        = (fst (get_mnemonic env (script\<lparr>word_inputs := pre @ post\<rparr>) mout w),
           fst (snd (get_mnemonic env (script\<lparr>word_inputs := pre @ post\<rparr>) mout w)))"
      by simp
    then show ?thesis by simp
  qed
  with loop show ?thesis by blast
qed

text \<open>Two accepted words, a delete, the second word again, a third word.\<close>

theorem delete_then_reaccept_witness:
  "fst (word_loop 12 (replicate WORKFLOW_RESTORE_FROM_MNEMONIC_MAX_WORDS []) 0
      ([WORKFLOW_TRINARY_INPUT_RESULT_OK ''abandon'', WORKFLOW_TRINARY_INPUT_RESULT_OK ''ability'']
         @ WORKFLOW_TRINARY_INPUT_RESULT_DELETE # WORKFLOW_TRINARY_INPUT_RESULT_OK ''ability''
         # [WORKFLOW_TRINARY_INPUT_RESULT_OK ''able'']) [])
   = fst (word_loop 12 (replicate WORKFLOW_RESTORE_FROM_MNEMONIC_MAX_WORDS []) 0
      ([WORKFLOW_TRINARY_INPUT_RESULT_OK ''abandon'', WORKFLOW_TRINARY_INPUT_RESULT_OK ''ability'']
         @ [WORKFLOW_TRINARY_INPUT_RESULT_OK ''able'']) [])
   \<and> pick_number_of_words TRINARY_CHOICE_LEFT = Inr 12
   \<and> fst (snd (get_mnemonic
        \<lparr>WORKFLOW_TRINARY_INPUT_MAX_WORD_LENGTH = 8,
          keystore_get_bip39_word = (\<lambda>i. Some ''word''),
          keystore_bip39_mnemonic_to_seed = (\<lambda>m. (True, replicate 32 0, 16)),
          keystore_encrypt_and_store_seed = (\<lambda>s l p. True),
          workflow_confirm_time = (\<lambda>t z b. True),
          securechip_u2f_counter_set = (\<lambda>t. True),
          memory_set_initialized = True,
          keystore_unlock = (\<lambda>p. KEYSTORE_OK)\<rparr>
        \<lparr>number_of_words_choice = Some TRINARY_CHOICE_LEFT,
         word_inputs =
           [WORKFLOW_TRINARY_INPUT_RESULT_OK ''abandon'', WORKFLOW_TRINARY_INPUT_RESULT_OK ''ability'']
           @ WORKFLOW_TRINARY_INPUT_RESULT_DELETE # WORKFLOW_TRINARY_INPUT_RESULT_OK ''ability''
           # [WORKFLOW_TRINARY_INPUT_RESULT_OK ''able''],
         password_inputs = []\<rparr> []
        \<lparr>ui = \<lparr>answers = [], shown = []\<rparr>, statuses = [], word_calls = [],
          stored_seed = None, initialized = False, u2f_counter = None,
          unlock_bip39_started = False\<rparr>))
     = fst (snd (get_mnemonic
        \<lparr>WORKFLOW_TRINARY_INPUT_MAX_WORD_LENGTH = 8,
          keystore_get_bip39_word = (\<lambda>i. Some ''word''),
          keystore_bip39_mnemonic_to_seed = (\<lambda>m. (True, replicate 32 0, 16)),
          keystore_encrypt_and_store_seed = (\<lambda>s l p. True),
          workflow_confirm_time = (\<lambda>t z b. True),
          securechip_u2f_counter_set = (\<lambda>t. True),
          memory_set_initialized = True,
          keystore_unlock = (\<lambda>p. KEYSTORE_OK)\<rparr>
        \<lparr>number_of_words_choice = Some TRINARY_CHOICE_LEFT,
         word_inputs =
           [WORKFLOW_TRINARY_INPUT_RESULT_OK ''abandon'', WORKFLOW_TRINARY_INPUT_RESULT_OK ''ability'']
           @ [WORKFLOW_TRINARY_INPUT_RESULT_OK ''able''],
         password_inputs = []\<rparr> []
        \<lparr>ui = \<lparr>answers = [], shown = []\<rparr>, statuses = [], word_calls = [],
          stored_seed = None, initialized = False, u2f_counter = None,
          unlock_bip39_started = False\<rparr>))"
proof -
  let ?W = "replicate WORKFLOW_RESTORE_FROM_MNEMONIC_MAX_WORDS ([]::string)"
  let ?env = "\<lparr>WORKFLOW_TRINARY_INPUT_MAX_WORD_LENGTH = 8,
          keystore_get_bip39_word = (\<lambda>i. Some ''word''),
          keystore_bip39_mnemonic_to_seed = (\<lambda>m. (True, replicate 32 0, 16)),
          keystore_encrypt_and_store_seed = (\<lambda>s l p. True),
          workflow_confirm_time = (\<lambda>t z b. True),
          securechip_u2f_counter_set = (\<lambda>t. True),
          memory_set_initialized = True,
          keystore_unlock = (\<lambda>p. KEYSTORE_OK)\<rparr>"
  let ?w = "\<lparr>ui = \<lparr>answers = [], shown = []\<rparr>, statuses = [], word_calls = [],
          stored_seed = None, initialized = False, u2f_counter = None,
          unlock_bip39_started = False\<rparr>"
  let ?script = "\<lparr>number_of_words_choice = Some TRINARY_CHOICE_LEFT, word_inputs = [],
         password_inputs = []\<rparr>"
  have s2: "word_loop 12 ?W 0
      [WORKFLOW_TRINARY_INPUT_RESULT_OK ''abandon'', WORKFLOW_TRINARY_INPUT_RESULT_OK ''ability''] []
      = (Words_waiting 2 ((replicate 24 [])[0 := ''abandon'', 1 := ''ability'']),
         [(0, None), (1, None), (2, None)])"
    by (simp add: WORKFLOW_RESTORE_FROM_MNEMONIC_MAX_WORDS_def)
  have p: "(0::nat) < 2" by simp
  have w: "((replicate 24 [])[0 := ''abandon'', 1 := ''ability'']) ! (2 - 1) = ''ability''"
    by simp
  have ch: "number_of_words_choice ?script = Some TRINARY_CHOICE_LEFT
      \<and> pick_number_of_words TRINARY_CHOICE_LEFT = Inr 12"
    by (simp add: pick_number_of_words_def)
  note t = delete_then_reaccept[OF s2 p, of "[WORKFLOW_TRINARY_INPUT_RESULT_OK ''able'']", unfolded w]
  from t[THEN conjunct1] t[THEN conjunct2, rule_format, OF ch, of ?env "[]" ?w] ch
  show ?thesis by simp
qed

subsection \<open>Auxiliary facts: the stages of \<open>workflow_restore_from_mnemonic\<close>\<close>

text \<open>
  \<open>_get_mnemonic\<close> touches neither the prompts nor the device. A cleanup changes neither
  the outcome nor the state outside, and it changes the frame only when the function
  returns. The function then reads stage by stage: no mnemonic, an invalid mnemonic, and
  the password loop followed by persistence; and a run of mismatches whose retries are
  accepted takes the password loop to its next result.
\<close>

lemma get_mnemonic_world:
  "ui (snd (snd (get_mnemonic env script mout w))) = ui w
   \<and> stored_seed (snd (snd (get_mnemonic env script mout w))) = stored_seed w
   \<and> initialized (snd (snd (get_mnemonic env script mout w))) = initialized w
   \<and> u2f_counter (snd (snd (get_mnemonic env script mout w))) = u2f_counter w
   \<and> unlock_bip39_started (snd (snd (get_mnemonic env script mout w))) = unlock_bip39_started w"
  by (simp add: get_mnemonic_def workflow_status_blocking_def Let_def
           split: option.splits sum.splits prod.splits word_loop_exit.splits)

lemma cleanup_outcome:
  "fst (UTIL_CLEANUP_STR_mnemonic r) = fst r"
  "fst (UTIL_CLEANUP_32_seed r) = fst r"
  "fst (UTIL_CLEANUP_STR_password r) = fst r"
  "snd (snd (UTIL_CLEANUP_STR_mnemonic r)) = snd (snd r)"
  "snd (snd (UTIL_CLEANUP_32_seed r)) = snd (snd r)"
  "snd (snd (UTIL_CLEANUP_STR_password r)) = snd (snd r)"
  by (simp_all add: UTIL_CLEANUP_STR_mnemonic_def UTIL_CLEANUP_32_seed_def
        UTIL_CLEANUP_STR_password_def split: prod.splits outcome.splits)

lemma cleanup_frame:
  "fst (snd (UTIL_CLEANUP_STR_mnemonic r)) =
     (case fst r of Returned b \<Rightarrow> (fst (snd r))\<lparr>mnemonic := []\<rparr> | _ \<Rightarrow> fst (snd r))"
  "fst (snd (UTIL_CLEANUP_32_seed r)) =
     (case fst r of Returned b \<Rightarrow> (fst (snd r))\<lparr>seed := Some (replicate 32 0)\<rparr> | _ \<Rightarrow> fst (snd r))"
  "fst (snd (UTIL_CLEANUP_STR_password r)) =
     (case fst r of Returned b \<Rightarrow> (fst (snd r))\<lparr>password := Some []\<rparr> | _ \<Rightarrow> fst (snd r))"
  by (simp_all add: UTIL_CLEANUP_STR_mnemonic_def UTIL_CLEANUP_32_seed_def
        UTIL_CLEANUP_STR_password_def split: prod.splits outcome.splits)

lemma workflow_no_mnemonic:
  assumes "fst (get_mnemonic env script [] w) \<noteq> Returned True"
  shows "fst (workflow_restore_from_mnemonic env APP_U2F request script w) = fst (get_mnemonic env script [] w)"
    and "fst (snd (workflow_restore_from_mnemonic env APP_U2F request script w)) =
      \<lparr>mnemonic = (case fst (get_mnemonic env script [] w) of Returned b \<Rightarrow> []
                     | _ \<Rightarrow> fst (snd (get_mnemonic env script [] w))),
       seed = None, password = None\<rparr>"
    and "snd (snd (workflow_restore_from_mnemonic env APP_U2F request script w)) = snd (snd (get_mnemonic env script [] w))"
  using assms
  by (cases "get_mnemonic env script [] w" rule: prod_cases3;
      simp add: workflow_restore_from_mnemonic_def UTIL_CLEANUP_STR_mnemonic_def
        split: outcome.splits bool.splits)+

lemma workflow_invalid_mnemonic:
  assumes "fst (get_mnemonic env script [] w) = Returned True"
    and "keystore_bip39_mnemonic_to_seed env (fst (snd (get_mnemonic env script [] w))) = (False, seed_buf, seed_len)"
  shows "workflow_restore_from_mnemonic env APP_U2F request script w =
     (Returned False, \<lparr>mnemonic = [], seed = Some (replicate 32 0), password = None\<rparr>,
      workflow_status_blocking (''Recovery words'' @ [CHR 0x0A] @ ''invalid'') False
        (snd (snd (get_mnemonic env script [] w))))"
  using assms
  by (cases "get_mnemonic env script [] w" rule: prod_cases3)
     (simp add: workflow_restore_from_mnemonic_def UTIL_CLEANUP_STR_mnemonic_def UTIL_CLEANUP_32_seed_def)

lemma workflow_password_stage:
  assumes "fst (get_mnemonic env script [] w) = Returned True"
    and "keystore_bip39_mnemonic_to_seed env (fst (snd (get_mnemonic env script [] w))) = (True, seed_buf, seed_len)"
  shows "workflow_restore_from_mnemonic env APP_U2F request script w =
     UTIL_CLEANUP_STR_mnemonic (UTIL_CLEANUP_32_seed (UTIL_CLEANUP_STR_password
       (let mn = fst (snd (get_mnemonic env script [] w));
            w2 = workflow_status_blocking (''Recovery words'' @ [CHR 0x0A] @ ''valid'') True
                   (snd (snd (get_mnemonic env script [] w)))
        in case password_loop (password_inputs script) [] (ui w) of
             (Password_waiting, pw, u) \<Rightarrow>
                (Blocked, \<lparr>mnemonic = mn, seed = Some seed_buf, password = Some pw\<rparr>, w2\<lparr>ui := u\<rparr>)
           | (Password_return_false, pw, u) \<Rightarrow>
                (Returned False, \<lparr>mnemonic = mn, seed = Some seed_buf, password = Some pw\<rparr>,
                 w2\<lparr>ui := u\<rparr>)
           | (Password_set, pw, u) \<Rightarrow>
                (case persist_and_unlock env APP_U2F request seed_buf seed_len pw (w2\<lparr>ui := u\<rparr>) of
                   (out, w3) \<Rightarrow>
                     (out, \<lparr>mnemonic = mn, seed = Some seed_buf, password = Some pw\<rparr>, w3)))))"
proof -
  obtain mn w1 where g: "get_mnemonic env script [] w = (Returned True, mn, w1)"
    using assms(1) by (cases "get_mnemonic env script [] w" rule: prod_cases3) simp
  have u: "ui w1 = ui w" using get_mnemonic_world[of env script "[]" w] g by simp
  show ?thesis
    using assms(2) g u
    by (simp add: workflow_restore_from_mnemonic_def Let_def workflow_status_blocking_def)
qed

lemma password_loop_retries:
  "password_loop (map (\<lambda>b. (False, b)) bufs @ rest) pw
      \<lparr>answers = replicate (length bufs) True @ as, shown = sh\<rparr>
   = password_loop rest (if bufs = [] then pw else last bufs)
      \<lparr>answers = as, shown = sh @ replicate (length bufs) params_try_again\<rparr>"
proof (induction bufs arbitrary: pw sh)
  case Nil
  then show ?case by simp
next
  case (Cons b bufs)
  show ?case
    using Cons.IH[of b "sh @ [params_try_again]"]
    by (simp add: workflow_confirm_blocking_def replicate_app_Cons_same)
qed

subsection \<open>The password loop\<close>

text \<open>
  Claim C5. Let the mnemonic be entered and valid, let the first \<open>length bufs\<close> calls of
  \<open>password_set\<close> report a mismatch (leaving any contents \<open>bufs\<close> in the buffer) and
  the user accept "Try again?" each time; the number of these retries is arbitrary. Each
  mismatch presents the prompt \<open>params_try_again\<close>. If the next call of \<open>password_set\<close>
  succeeds with the password \<open>pw\<close>, the workflow goes on to persist the seed under \<open>pw\<close>:
  its outcome and the state it leaves are those of lines 180 to 203, with the seed stored
  when \<open>keystore_encrypt_and_store_seed\<close> succeeds and \<open>false\<close> returned when it fails.
  If the next call reports a mismatch again, the prompt is presented once more; when the
  user declines it the workflow returns false with nothing stored, and while the user
  does not answer it the workflow waits.
\<close>

theorem password_retry_loop:
  assumes gm: "fst (get_mnemonic env script [] w) = Returned True"
    and sd: "keystore_bip39_mnemonic_to_seed env (fst (snd (get_mnemonic env script [] w)))
               = (True, seed_buf, seed_len)"
    and pin: "password_inputs script = map (\<lambda>b. (False, b)) bufs @ (matched, pw) # rest"
    and ans: "answers (ui w) = replicate (length bufs) True @ as"
  shows "let r = workflow_restore_from_mnemonic env APP_U2F request script w;
             prompts = shown (ui w) @ replicate (length bufs) params_try_again;
             w2 = workflow_status_blocking (''Recovery words'' @ [CHR 0x0A] @ ''valid'') True
                    (snd (snd (get_mnemonic env script [] w)))
         in (matched \<longrightarrow>
               fst r = fst (persist_and_unlock env APP_U2F request seed_buf seed_len pw
                              (w2\<lparr>ui := \<lparr>answers = as, shown = prompts\<rparr>\<rparr>))
               \<and> snd (snd r) = snd (persist_and_unlock env APP_U2F request seed_buf seed_len pw
                              (w2\<lparr>ui := \<lparr>answers = as, shown = prompts\<rparr>\<rparr>))
               \<and> shown (ui (snd (snd r))) = prompts
               \<and> (keystore_encrypt_and_store_seed env seed_buf seed_len pw \<longrightarrow>
                     stored_seed (snd (snd r)) = Some (take seed_len seed_buf, pw))
               \<and> (\<not> keystore_encrypt_and_store_seed env seed_buf seed_len pw \<longrightarrow>
                     fst r = Returned False \<and> stored_seed (snd (snd r)) = stored_seed w))
          \<and> (\<not> matched \<longrightarrow>
               (as = [] \<longrightarrow>
                  fst r = Blocked \<and> shown (ui (snd (snd r))) = prompts @ [params_try_again])
               \<and> (\<forall>as'. as = False # as' \<longrightarrow>
                     fst r = Returned False
                     \<and> shown (ui (snd (snd r))) = prompts @ [params_try_again]
                     \<and> stored_seed (snd (snd r)) = stored_seed w))"
proof -
  define mn where "mn = fst (snd (get_mnemonic env script [] w))"
  define w2 where "w2 = workflow_status_blocking (''Recovery words'' @ [CHR 0x0A] @ ''valid'') True
                    (snd (snd (get_mnemonic env script [] w)))"
  define prompts where "prompts = shown (ui w) @ replicate (length bufs) params_try_again"
  define r where "r = workflow_restore_from_mnemonic env APP_U2F request script w"
  have uiw: "ui w = \<lparr>answers = replicate (length bufs) True @ as, shown = shown (ui w)\<rparr>"
    using ans by (cases "ui w") simp
  have pl: "password_loop (password_inputs script) [] (ui w)
              = password_loop ((matched, pw) # rest) (if bufs = [] then [] else last bufs)
                  \<lparr>answers = as, shown = prompts\<rparr>"
    unfolding pin prompts_def by (subst uiw) (rule password_loop_retries)
  have w2s: "stored_seed w2 = stored_seed w"
    using get_mnemonic_world[of env script "[]" w] by (simp add: w2_def workflow_status_blocking_def)
  note stage = workflow_password_stage[OF gm sd, of APP_U2F request, folded r_def mn_def w2_def, unfolded Let_def pl]
  have m: "fst r = fst (persist_and_unlock env APP_U2F request seed_buf seed_len pw
                              (w2\<lparr>ui := \<lparr>answers = as, shown = prompts\<rparr>\<rparr>))
               \<and> snd (snd r) = snd (persist_and_unlock env APP_U2F request seed_buf seed_len pw
                              (w2\<lparr>ui := \<lparr>answers = as, shown = prompts\<rparr>\<rparr>))
               \<and> shown (ui (snd (snd r))) = prompts
               \<and> (keystore_encrypt_and_store_seed env seed_buf seed_len pw \<longrightarrow>
                     stored_seed (snd (snd r)) = Some (take seed_len seed_buf, pw))
               \<and> (\<not> keystore_encrypt_and_store_seed env seed_buf seed_len pw \<longrightarrow>
                     fst r = Returned False \<and> stored_seed (snd (snd r)) = stored_seed w)"
    if matched
  proof -
    have a: "fst r = fst (persist_and_unlock env APP_U2F request seed_buf seed_len pw
                              (w2\<lparr>ui := \<lparr>answers = as, shown = prompts\<rparr>\<rparr>))"
      and b: "snd (snd r) = snd (persist_and_unlock env APP_U2F request seed_buf seed_len pw
                              (w2\<lparr>ui := \<lparr>answers = as, shown = prompts\<rparr>\<rparr>))"
      using that by (simp_all add: stage cleanup_outcome split: prod.splits)
    show ?thesis
      unfolding a b
      by (simp add: persist_and_unlock_def Let_def workflow_status_blocking_def w2s)
  qed
  have nm: "(as = [] \<longrightarrow>
                  fst r = Blocked \<and> shown (ui (snd (snd r))) = prompts @ [params_try_again])
               \<and> (\<forall>as'. as = False # as' \<longrightarrow>
                     fst r = Returned False
                     \<and> shown (ui (snd (snd r))) = prompts @ [params_try_again]
                     \<and> stored_seed (snd (snd r)) = stored_seed w)"
    if "\<not> matched"
    using that
    by (auto simp: stage cleanup_outcome workflow_confirm_blocking_def w2s split: prod.splits)
  show ?thesis
    unfolding Let_def r_def[symmetric] prompts_def[symmetric] w2_def[symmetric]
    using m nm by blast
qed

text \<open>
  One mismatch, the retry accepted, then a match: the seed is stored under the second
  password. One mismatch, the retry declined: the workflow returns false.
\<close>

theorem password_retry_loop_witness:
  "stored_seed (snd (snd (workflow_restore_from_mnemonic
      \<lparr>WORKFLOW_TRINARY_INPUT_MAX_WORD_LENGTH = 8,
       keystore_get_bip39_word = (\<lambda>i. Some ''word''),
       keystore_bip39_mnemonic_to_seed = (\<lambda>m. (True, replicate 32 0, 16)),
       keystore_encrypt_and_store_seed = (\<lambda>s l p. True),
       workflow_confirm_time = (\<lambda>t z b. True),
       securechip_u2f_counter_set = (\<lambda>t. True),
       memory_set_initialized = True,
       keystore_unlock = (\<lambda>p. KEYSTORE_OK)\<rparr> False
      \<lparr>timestamp = 0, timezone_offset = 0\<rparr>
      \<lparr>number_of_words_choice = Some TRINARY_CHOICE_LEFT,
       word_inputs = map WORKFLOW_TRINARY_INPUT_RESULT_OK
         [''abandon'', ''abandon'', ''abandon'', ''abandon'', ''abandon'', ''abandon'',
          ''abandon'', ''abandon'', ''abandon'', ''abandon'', ''abandon'', ''about''],
       password_inputs = [(False, ''A''), (True, ''C'')]\<rparr>
      \<lparr>ui = \<lparr>answers = [True], shown = []\<rparr>, statuses = [], word_calls = [],
       stored_seed = None, initialized = False, u2f_counter = None,
       unlock_bip39_started = False\<rparr>)))
     = Some (take 16 (replicate 32 0), ''C'')
   \<and> fst (workflow_restore_from_mnemonic
      \<lparr>WORKFLOW_TRINARY_INPUT_MAX_WORD_LENGTH = 8,
       keystore_get_bip39_word = (\<lambda>i. Some ''word''),
       keystore_bip39_mnemonic_to_seed = (\<lambda>m. (True, replicate 32 0, 16)),
       keystore_encrypt_and_store_seed = (\<lambda>s l p. True),
       workflow_confirm_time = (\<lambda>t z b. True),
       securechip_u2f_counter_set = (\<lambda>t. True),
       memory_set_initialized = True,
       keystore_unlock = (\<lambda>p. KEYSTORE_OK)\<rparr> False
      \<lparr>timestamp = 0, timezone_offset = 0\<rparr>
      \<lparr>number_of_words_choice = Some TRINARY_CHOICE_LEFT,
       word_inputs = map WORKFLOW_TRINARY_INPUT_RESULT_OK
         [''abandon'', ''abandon'', ''abandon'', ''abandon'', ''abandon'', ''abandon'',
          ''abandon'', ''abandon'', ''abandon'', ''abandon'', ''abandon'', ''about''],
       password_inputs = [(False, ''A'')]\<rparr>
      \<lparr>ui = \<lparr>answers = [False], shown = []\<rparr>, statuses = [], word_calls = [],
       stored_seed = None, initialized = False, u2f_counter = None,
       unlock_bip39_started = False\<rparr>) = Returned False"
proof -
  let ?env = "\<lparr>WORKFLOW_TRINARY_INPUT_MAX_WORD_LENGTH = 8,
       keystore_get_bip39_word = (\<lambda>i. Some ''word''),
       keystore_bip39_mnemonic_to_seed = (\<lambda>m. (True, replicate 32 0, 16)),
       keystore_encrypt_and_store_seed = (\<lambda>s l p. True),
       workflow_confirm_time = (\<lambda>t z b. True),
       securechip_u2f_counter_set = (\<lambda>t. True),
       memory_set_initialized = True,
       keystore_unlock = (\<lambda>p. KEYSTORE_OK)\<rparr>"
  let ?req = "\<lparr>timestamp = 0, timezone_offset = 0\<rparr>"
  let ?s1 = "\<lparr>number_of_words_choice = Some TRINARY_CHOICE_LEFT,
       word_inputs = map WORKFLOW_TRINARY_INPUT_RESULT_OK
         [''abandon'', ''abandon'', ''abandon'', ''abandon'', ''abandon'', ''abandon'',
          ''abandon'', ''abandon'', ''abandon'', ''abandon'', ''abandon'', ''about''],
       password_inputs = [(False, ''A''), (True, ''C'')]\<rparr>"
  let ?s2 = "\<lparr>number_of_words_choice = Some TRINARY_CHOICE_LEFT,
       word_inputs = map WORKFLOW_TRINARY_INPUT_RESULT_OK
         [''abandon'', ''abandon'', ''abandon'', ''abandon'', ''abandon'', ''abandon'',
          ''abandon'', ''abandon'', ''abandon'', ''abandon'', ''abandon'', ''about''],
       password_inputs = [(False, ''A'')]\<rparr>"
  let ?w1 = "\<lparr>ui = \<lparr>answers = [True], shown = []\<rparr>, statuses = [], word_calls = [],
       stored_seed = None, initialized = False, u2f_counter = None,
       unlock_bip39_started = False\<rparr>"
  let ?w2 = "\<lparr>ui = \<lparr>answers = [False], shown = []\<rparr>, statuses = [], word_calls = [],
       stored_seed = None, initialized = False, u2f_counter = None,
       unlock_bip39_started = False\<rparr>"
  have g1: "fst (get_mnemonic ?env ?s1 [] ?w1) = Returned True"
    by (simp add: get_mnemonic_def list_all_iff pick_number_of_words_def
        WORKFLOW_RESTORE_FROM_MNEMONIC_MAX_WORDS_def Let_def)
  have g2: "fst (get_mnemonic ?env ?s2 [] ?w2) = Returned True"
    by (simp add: get_mnemonic_def list_all_iff pick_number_of_words_def
        WORKFLOW_RESTORE_FROM_MNEMONIC_MAX_WORDS_def Let_def)
  have d1: "keystore_bip39_mnemonic_to_seed ?env (fst (snd (get_mnemonic ?env ?s1 [] ?w1)))
      = (True, replicate 32 0, 16)" by simp
  have d2: "keystore_bip39_mnemonic_to_seed ?env (fst (snd (get_mnemonic ?env ?s2 [] ?w2)))
      = (True, replicate 32 0, 16)" by simp
  have p1: "password_inputs ?s1 = map (\<lambda>b. (False, b)) [''A''] @ (True, ''C'') # []" by simp
  have p2: "password_inputs ?s2 = map (\<lambda>b. (False, b)) [] @ (False, ''A'') # []" by simp
  have a1: "answers (ui ?w1) = replicate (length [''A'']) True @ []" by simp
  have a2: "answers (ui ?w2) = replicate (length ([]::string list)) True @ [False]" by simp
  from password_retry_loop[OF g1 d1 p1 a1, of False ?req, unfolded Let_def]
       password_retry_loop[OF g2 d2 p2 a2, of False ?req, unfolded Let_def]
  show ?thesis by (simp add: persist_and_unlock_def Let_def)
qed

text \<open>
  Once the password is set, the workflow is lines 180 to 203 followed by the three
  cleanups. The outcome of the workflow does not depend on what
  \<open>securechip_u2f_counter_set\<close> returns.
\<close>

lemma workflow_persist_stage:
  assumes gm: "fst (get_mnemonic env script [] w) = Returned True"
    and sd: "keystore_bip39_mnemonic_to_seed env (fst (snd (get_mnemonic env script [] w)))
               = (True, seed_buf, seed_len)"
    and pl: "password_loop (password_inputs script) [] (ui w) = (Password_set, pw, u)"
  shows "fst (workflow_restore_from_mnemonic env APP_U2F request script w)
           = fst (persist_and_unlock env APP_U2F request seed_buf seed_len pw
               ((workflow_status_blocking (''Recovery words'' @ [CHR 0x0A] @ ''valid'') True
                   (snd (snd (get_mnemonic env script [] w))))\<lparr>ui := u\<rparr>))"
    and "snd (snd (workflow_restore_from_mnemonic env APP_U2F request script w))
           = snd (persist_and_unlock env APP_U2F request seed_buf seed_len pw
               ((workflow_status_blocking (''Recovery words'' @ [CHR 0x0A] @ ''valid'') True
                   (snd (snd (get_mnemonic env script [] w))))\<lparr>ui := u\<rparr>))"
    and "fst (snd (workflow_restore_from_mnemonic env APP_U2F request script w))
           = (case fst (workflow_restore_from_mnemonic env APP_U2F request script w) of
                Returned b \<Rightarrow> \<lparr>mnemonic = [], seed = Some (replicate 32 0), password = Some []\<rparr>
              | _ \<Rightarrow> \<lparr>mnemonic = fst (snd (get_mnemonic env script [] w)), seed = Some seed_buf,
                       password = Some pw\<rparr>)"
  unfolding workflow_password_stage[OF gm sd] Let_def pl
  by (simp_all add: cleanup_outcome cleanup_frame split: prod.splits outcome.splits)

lemma persist_world:
  "stored_seed (snd (persist_and_unlock env APP_U2F request seed_buf seed_len pw w)) =
     (if keystore_encrypt_and_store_seed env seed_buf seed_len pw
      then Some (take seed_len seed_buf, pw) else stored_seed w)"
  by (simp add: persist_and_unlock_def Let_def workflow_status_blocking_def)

lemma get_mnemonic_counter_env:
  "get_mnemonic (env\<lparr>securechip_u2f_counter_set := f\<rparr>) script mout w = get_mnemonic env script mout w"
  by (simp add: get_mnemonic_def Let_def
           split: option.splits sum.splits prod.splits word_loop_exit.splits)

lemma persist_counter_env:
  "fst (persist_and_unlock (env\<lparr>securechip_u2f_counter_set := f\<rparr>) APP_U2F request seed_buf seed_len pw w)
     = fst (persist_and_unlock env APP_U2F request seed_buf seed_len pw w)"
  by (simp add: persist_and_unlock_def Let_def)

lemma workflow_counter_env:
  "fst (workflow_restore_from_mnemonic (env\<lparr>securechip_u2f_counter_set := f\<rparr>) APP_U2F request script w)
     = fst (workflow_restore_from_mnemonic env APP_U2F request script w)"
proof (cases "fst (get_mnemonic env script [] w) = Returned True")
  case False
  then show ?thesis
    using workflow_no_mnemonic(1)[of env script w APP_U2F request]
      workflow_no_mnemonic(1)[of "env\<lparr>securechip_u2f_counter_set := f\<rparr>" script w APP_U2F request]
    by (simp add: get_mnemonic_counter_env)
next
  case True
  obtain valid seed_buf seed_len where
    sd: "keystore_bip39_mnemonic_to_seed env (fst (snd (get_mnemonic env script [] w)))
           = (valid, seed_buf, seed_len)"
    by (rule prod_cases3)
  let ?env = "env\<lparr>securechip_u2f_counter_set := f\<rparr>"
  have True': "fst (get_mnemonic ?env script [] w) = Returned True"
    using True by (simp add: get_mnemonic_counter_env)
  have sd': "keystore_bip39_mnemonic_to_seed ?env (fst (snd (get_mnemonic ?env script [] w)))
           = (valid, seed_buf, seed_len)"
    using sd by (simp add: get_mnemonic_counter_env)
  show ?thesis
  proof (cases valid)
    case False
    then have f: "keystore_bip39_mnemonic_to_seed env (fst (snd (get_mnemonic env script [] w)))
           = (False, seed_buf, seed_len)"
      and f': "keystore_bip39_mnemonic_to_seed ?env (fst (snd (get_mnemonic ?env script [] w)))
           = (False, seed_buf, seed_len)"
      using sd sd' by simp_all
    show ?thesis
      using workflow_invalid_mnemonic[OF True f, of APP_U2F request]
        workflow_invalid_mnemonic[OF True' f', of APP_U2F request]
      by simp
  next
    case valid: True
    then have t: "keystore_bip39_mnemonic_to_seed env (fst (snd (get_mnemonic env script [] w)))
           = (True, seed_buf, seed_len)"
      and t': "keystore_bip39_mnemonic_to_seed ?env (fst (snd (get_mnemonic ?env script [] w)))
           = (True, seed_buf, seed_len)"
      using sd sd' by simp_all
    obtain ex pw u where pl: "password_loop (password_inputs script) [] (ui w) = (ex, pw, u)"
      by (rule prod_cases3)
    show ?thesis
      unfolding workflow_password_stage[OF True t] workflow_password_stage[OF True' t']
        cleanup_outcome Let_def pl
      by (cases ex) (simp_all add: persist_counter_env get_mnemonic_counter_env case_prod_beta)
  qed
qed

subsection \<open>Unlock after a successful store\<close>

text \<open>
  Claim C6. Let the workflow reach line 180 with the password set, and let the seed be
  stored, the time confirmation (under \<open>APP_U2F\<close>) be accepted and
  \<open>memory_set_initialized\<close> succeed. Then the workflow returns true when
  \<open>keystore_unlock\<close> reports \<open>KEYSTORE_OK\<close>, and calls \<open>Abort\<close> otherwise: it never returns
  false from here, and the seed is stored and the device marked initialized either way.
\<close>

theorem unlock_failure_aborts:
  assumes gm: "fst (get_mnemonic env script [] w) = Returned True"
    and sd: "keystore_bip39_mnemonic_to_seed env (fst (snd (get_mnemonic env script [] w)))
               = (True, seed_buf, seed_len)"
    and pl: "password_loop (password_inputs script) [] (ui w) = (Password_set, pw, u)"
    and store: "keystore_encrypt_and_store_seed env seed_buf seed_len pw"
    and ct: "APP_U2F \<longrightarrow> workflow_confirm_time env (timestamp request) (timezone_offset request) False"
    and mi: "memory_set_initialized env"
  shows "let r = workflow_restore_from_mnemonic env APP_U2F request script w
         in fst r = (if keystore_unlock env pw = KEYSTORE_OK then Returned True
                     else Aborted ''workflow_restore_from_mnemonic: unlock failed'')
            \<and> fst r \<noteq> Returned False
            \<and> stored_seed (snd (snd r)) = Some (take seed_len seed_buf, pw)
            \<and> initialized (snd (snd r))"
  unfolding Let_def workflow_persist_stage[OF gm sd pl]
  using store ct mi by (simp add: persist_and_unlock_def Let_def)

text \<open>A keystore that does not unlock after a successful store.\<close>

theorem unlock_failure_aborts_witness:
  "fst (workflow_restore_from_mnemonic
      \<lparr>WORKFLOW_TRINARY_INPUT_MAX_WORD_LENGTH = 8,
       keystore_get_bip39_word = (\<lambda>i. Some ''word''),
       keystore_bip39_mnemonic_to_seed = (\<lambda>m. (True, replicate 32 0, 16)),
       keystore_encrypt_and_store_seed = (\<lambda>s l p. True),
       workflow_confirm_time = (\<lambda>t z b. True),
       securechip_u2f_counter_set = (\<lambda>t. True),
       memory_set_initialized = True,
       keystore_unlock = (\<lambda>p. KEYSTORE_ERR 1)\<rparr> False
      \<lparr>timestamp = 0, timezone_offset = 0\<rparr>
      \<lparr>number_of_words_choice = Some TRINARY_CHOICE_LEFT,
       word_inputs = map WORKFLOW_TRINARY_INPUT_RESULT_OK
         [''abandon'', ''abandon'', ''abandon'', ''abandon'', ''abandon'', ''abandon'',
          ''abandon'', ''abandon'', ''abandon'', ''abandon'', ''abandon'', ''about''],
       password_inputs = [(True, ''C'')]\<rparr>
      \<lparr>ui = \<lparr>answers = [], shown = []\<rparr>, statuses = [], word_calls = [],
       stored_seed = None, initialized = False, u2f_counter = None,
       unlock_bip39_started = False\<rparr>)
     = Aborted ''workflow_restore_from_mnemonic: unlock failed''"
proof -
  let ?env = "\<lparr>WORKFLOW_TRINARY_INPUT_MAX_WORD_LENGTH = 8,
       keystore_get_bip39_word = (\<lambda>i. Some ''word''),
       keystore_bip39_mnemonic_to_seed = (\<lambda>m. (True, replicate 32 0, 16)),
       keystore_encrypt_and_store_seed = (\<lambda>s l p. True),
       workflow_confirm_time = (\<lambda>t z b. True),
       securechip_u2f_counter_set = (\<lambda>t. True),
       memory_set_initialized = True,
       keystore_unlock = (\<lambda>p. KEYSTORE_ERR 1)\<rparr>"
  let ?req = "\<lparr>timestamp = 0, timezone_offset = 0\<rparr>"
  let ?s = "\<lparr>number_of_words_choice = Some TRINARY_CHOICE_LEFT,
       word_inputs = map WORKFLOW_TRINARY_INPUT_RESULT_OK
         [''abandon'', ''abandon'', ''abandon'', ''abandon'', ''abandon'', ''abandon'',
          ''abandon'', ''abandon'', ''abandon'', ''abandon'', ''abandon'', ''about''],
       password_inputs = [(True, ''C'')]\<rparr>"
  let ?w = "\<lparr>ui = \<lparr>answers = [], shown = []\<rparr>, statuses = [], word_calls = [],
       stored_seed = None, initialized = False, u2f_counter = None,
       unlock_bip39_started = False\<rparr>"
  have g: "fst (get_mnemonic ?env ?s [] ?w) = Returned True"
    by (simp add: get_mnemonic_def list_all_iff pick_number_of_words_def
        WORKFLOW_RESTORE_FROM_MNEMONIC_MAX_WORDS_def Let_def)
  have d: "keystore_bip39_mnemonic_to_seed ?env (fst (snd (get_mnemonic ?env ?s [] ?w)))
      = (True, replicate 32 0, 16)" by simp
  have p: "password_loop (password_inputs ?s) [] (ui ?w) = (Password_set, ''C'', \<lparr>answers = [], shown = []\<rparr>)"
    by simp
  have st: "keystore_encrypt_and_store_seed ?env (replicate 32 0) 16 ''C''" by simp
  have ct: "False \<longrightarrow> workflow_confirm_time ?env (timestamp ?req) (timezone_offset ?req) False" by simp
  have mi: "memory_set_initialized ?env" by simp
  from unlock_failure_aborts[OF g d p st ct mi, unfolded Let_def]
  show ?thesis by simp
qed

subsection \<open>A declined time confirmation\<close>

text \<open>
  Claim C10. Under \<open>APP_U2F\<close>, let the workflow reach line 180 with the password set, the
  seed be stored, and the user decline the time confirmation. Then the workflow returns
  false with the seed still stored under the password, the device not marked initialized
  (the flag is what it was before the call) and the counter untouched. And whatever
  \<open>securechip_u2f_counter_set\<close> returns, with or without \<open>APP_U2F\<close>, the outcome of the
  workflow is the same.
\<close>

theorem declined_time_keeps_stored_seed:
  assumes gm: "fst (get_mnemonic env script [] w) = Returned True"
    and sd: "keystore_bip39_mnemonic_to_seed env (fst (snd (get_mnemonic env script [] w)))
               = (True, seed_buf, seed_len)"
    and pl: "password_loop (password_inputs script) [] (ui w) = (Password_set, pw, u)"
    and store: "keystore_encrypt_and_store_seed env seed_buf seed_len pw"
    and decl: "\<not> workflow_confirm_time env (timestamp request) (timezone_offset request) False"
  shows "(let r = workflow_restore_from_mnemonic env True request script w
          in fst r = Returned False
             \<and> stored_seed (snd (snd r)) = Some (take seed_len seed_buf, pw)
             \<and> initialized (snd (snd r)) = initialized w
             \<and> u2f_counter (snd (snd r)) = u2f_counter w)
       \<and> (\<forall>f b. fst (workflow_restore_from_mnemonic (env\<lparr>securechip_u2f_counter_set := f\<rparr>)
                        b request script w)
                = fst (workflow_restore_from_mnemonic env b request script w))"
proof -
  have "initialized (snd (snd (get_mnemonic env script [] w))) = initialized w"
    and "u2f_counter (snd (snd (get_mnemonic env script [] w))) = u2f_counter w"
    using get_mnemonic_world[of env script "[]" w] by simp_all
  then have "let r = workflow_restore_from_mnemonic env True request script w
          in fst r = Returned False
             \<and> stored_seed (snd (snd r)) = Some (take seed_len seed_buf, pw)
             \<and> initialized (snd (snd r)) = initialized w
             \<and> u2f_counter (snd (snd r)) = u2f_counter w"
    unfolding Let_def workflow_persist_stage[OF gm sd pl, of True request]
    using store decl
    by (simp add: persist_and_unlock_def Let_def workflow_status_blocking_def)
  moreover have "\<forall>f b. fst (workflow_restore_from_mnemonic (env\<lparr>securechip_u2f_counter_set := f\<rparr>)
                        b request script w)
                = fst (workflow_restore_from_mnemonic env b request script w)"
    by (simp add: workflow_counter_env)
  ultimately show ?thesis by (rule conjI)
qed

text \<open>Twelve words, a password, a successful store, the time confirmation declined.\<close>

theorem declined_time_keeps_stored_seed_witness:
  "(let r = workflow_restore_from_mnemonic
      \<lparr>WORKFLOW_TRINARY_INPUT_MAX_WORD_LENGTH = 8,
       keystore_get_bip39_word = (\<lambda>i. Some ''word''),
       keystore_bip39_mnemonic_to_seed = (\<lambda>m. (True, replicate 32 0, 16)),
       keystore_encrypt_and_store_seed = (\<lambda>s l p. True),
       workflow_confirm_time = (\<lambda>t z b. False),
       securechip_u2f_counter_set = (\<lambda>t. True),
       memory_set_initialized = True,
       keystore_unlock = (\<lambda>p. KEYSTORE_OK)\<rparr> True
      \<lparr>timestamp = 0, timezone_offset = 0\<rparr>
      \<lparr>number_of_words_choice = Some TRINARY_CHOICE_LEFT,
       word_inputs = map WORKFLOW_TRINARY_INPUT_RESULT_OK
         [''abandon'', ''abandon'', ''abandon'', ''abandon'', ''abandon'', ''abandon'',
          ''abandon'', ''abandon'', ''abandon'', ''abandon'', ''abandon'', ''about''],
       password_inputs = [(True, ''C'')]\<rparr>
      \<lparr>ui = \<lparr>answers = [], shown = []\<rparr>, statuses = [], word_calls = [],
       stored_seed = None, initialized = False, u2f_counter = None,
       unlock_bip39_started = False\<rparr>
    in fst r = Returned False
       \<and> stored_seed (snd (snd r)) = Some (take 16 (replicate 32 0), ''C'')
       \<and> initialized (snd (snd r)) = False)"
proof -
  let ?env = "\<lparr>WORKFLOW_TRINARY_INPUT_MAX_WORD_LENGTH = 8,
       keystore_get_bip39_word = (\<lambda>i. Some ''word''),
       keystore_bip39_mnemonic_to_seed = (\<lambda>m. (True, replicate 32 0, 16)),
       keystore_encrypt_and_store_seed = (\<lambda>s l p. True),
       workflow_confirm_time = (\<lambda>t z b. False),
       securechip_u2f_counter_set = (\<lambda>t. True),
       memory_set_initialized = True,
       keystore_unlock = (\<lambda>p. KEYSTORE_OK)\<rparr>"
  let ?req = "\<lparr>timestamp = 0, timezone_offset = 0\<rparr>"
  let ?s = "\<lparr>number_of_words_choice = Some TRINARY_CHOICE_LEFT,
       word_inputs = map WORKFLOW_TRINARY_INPUT_RESULT_OK
         [''abandon'', ''abandon'', ''abandon'', ''abandon'', ''abandon'', ''abandon'',
          ''abandon'', ''abandon'', ''abandon'', ''abandon'', ''abandon'', ''about''],
       password_inputs = [(True, ''C'')]\<rparr>"
  let ?w = "\<lparr>ui = \<lparr>answers = [], shown = []\<rparr>, statuses = [], word_calls = [],
       stored_seed = None, initialized = False, u2f_counter = None,
       unlock_bip39_started = False\<rparr>"
  have g: "fst (get_mnemonic ?env ?s [] ?w) = Returned True"
    by (simp add: get_mnemonic_def list_all_iff pick_number_of_words_def
        WORKFLOW_RESTORE_FROM_MNEMONIC_MAX_WORDS_def Let_def)
  have d: "keystore_bip39_mnemonic_to_seed ?env (fst (snd (get_mnemonic ?env ?s [] ?w)))
      = (True, replicate 32 0, 16)" by simp
  have p: "password_loop (password_inputs ?s) [] (ui ?w) = (Password_set, ''C'', \<lparr>answers = [], shown = []\<rparr>)"
    by simp
  have st: "keystore_encrypt_and_store_seed ?env (replicate 32 0) 16 ''C''" by simp
  have de: "\<not> workflow_confirm_time ?env (timestamp ?req) (timezone_offset ?req) False" by simp
  from declined_time_keeps_stored_seed[OF g d p st de, unfolded Let_def]
  show ?thesis by (simp add: Let_def)
qed

subsection \<open>The secret buffers when the call returns\<close>

text \<open>
  The three buffers of \<open>workflow_restore_from_mnemonic\<close>. Whenever the workflow
  returns, \<open>mnemonic\<close> is zeroed, and so are \<open>seed\<close> and \<open>password\<close> unless the return
  comes before their declaration, when they were never written: a failure of
  \<open>_get_mnemonic\<close> returns false with \<open>mnemonic\<close> empty and the two other buffers not yet
  declared; an invalid mnemonic returns false with \<open>mnemonic\<close> and \<open>seed\<close> zeroed and
  \<open>password\<close> not yet declared; and every return after a valid mnemonic leaves all three
  buffers zeroed.
\<close>

lemma declared_buffers_zeroed:
  "let r = workflow_restore_from_mnemonic env APP_U2F request script w;
       fr = fst (snd r);
       g = get_mnemonic env script [] w
   in (\<forall>b. fst r = Returned b \<longrightarrow>
          mnemonic fr = []
          \<and> (seed fr = None \<or> seed fr = Some (replicate 32 0))
          \<and> (password fr = None \<or> password fr = Some []))
      \<and> (fst g = Returned False \<longrightarrow>
            fst r = Returned False \<and> fr = \<lparr>mnemonic = [], seed = None, password = None\<rparr>)
      \<and> (fst g = Returned True \<and> \<not> fst (keystore_bip39_mnemonic_to_seed env (fst (snd g))) \<longrightarrow>
            fst r = Returned False
            \<and> fr = \<lparr>mnemonic = [], seed = Some (replicate 32 0), password = None\<rparr>)
      \<and> (fst g = Returned True \<and> fst (keystore_bip39_mnemonic_to_seed env (fst (snd g))) \<longrightarrow>
            (\<forall>b. fst r = Returned b \<longrightarrow>
               fr = \<lparr>mnemonic = [], seed = Some (replicate 32 0), password = Some []\<rparr>))"
proof -
  define r where "r = workflow_restore_from_mnemonic env APP_U2F request script w"
  define g where "g = get_mnemonic env script [] w"
  define fr where "fr = fst (snd r)"
  have nomn: "fst r = fst g \<and> fr = \<lparr>mnemonic = (case fst g of Returned b \<Rightarrow> [] | _ \<Rightarrow> fst (snd g)),
       seed = None, password = None\<rparr>" if "fst g \<noteq> Returned True"
    using workflow_no_mnemonic(1,2)[of env script w APP_U2F request] that
    unfolding r_def g_def fr_def by blast
  have c: "fst g = Returned False \<longrightarrow>
            fst r = Returned False \<and> fr = \<lparr>mnemonic = [], seed = None, password = None\<rparr>"
    using nomn by auto
  have d: "fst r = Returned False
            \<and> fr = \<lparr>mnemonic = [], seed = Some (replicate 32 0), password = None\<rparr>"
    if "fst g = Returned True \<and> \<not> fst (keystore_bip39_mnemonic_to_seed env (fst (snd g)))"
  proof -
    obtain v sb sl where k: "keystore_bip39_mnemonic_to_seed env (fst (snd g)) = (v, sb, sl)"
      by (rule prod_cases3)
    with that have "\<not> v" by simp
    with k have "keystore_bip39_mnemonic_to_seed env (fst (snd g)) = (False, sb, sl)" by simp
    from workflow_invalid_mnemonic[OF that[THEN conjunct1, unfolded g_def] this[unfolded g_def], of APP_U2F request]
    show ?thesis by (simp add: r_def fr_def)
  qed
  have e: "fr = \<lparr>mnemonic = [], seed = Some (replicate 32 0), password = Some []\<rparr>"
    if h: "fst g = Returned True \<and> fst (keystore_bip39_mnemonic_to_seed env (fst (snd g)))"
      and ret: "fst r = Returned b" for b
  proof -
    obtain v sb sl where k: "keystore_bip39_mnemonic_to_seed env (fst (snd g)) = (v, sb, sl)"
      by (rule prod_cases3)
    with h have v by simp
    with k have sd: "keystore_bip39_mnemonic_to_seed env (fst (snd g)) = (True, sb, sl)" by simp
    obtain ex pw u where pl: "password_loop (password_inputs script) [] (ui w) = (ex, pw, u)"
      by (rule prod_cases3)
    note stage = workflow_password_stage[OF h[THEN conjunct1, unfolded g_def] sd[unfolded g_def],
        of APP_U2F request, folded r_def, unfolded Let_def pl]
    from ret show ?thesis
      unfolding fr_def stage
      by (cases ex)
         (auto simp: cleanup_outcome cleanup_frame case_prod_beta split: outcome.splits)
  qed
  have a: "mnemonic fr = []
          \<and> (seed fr = None \<or> seed fr = Some (replicate 32 0))
          \<and> (password fr = None \<or> password fr = Some [])" if ret: "fst r = Returned b" for b
  proof (cases "fst g = Returned True")
    case False
    with nomn ret show ?thesis by (auto split: outcome.splits)
  next
    case True
    show ?thesis
    proof (cases "fst (keystore_bip39_mnemonic_to_seed env (fst (snd g)))")
      case False
      with d True show ?thesis by simp
    next
      case valid: True
      with e[OF _ ret] True show ?thesis by simp
    qed
  qed
  show ?thesis
    unfolding Let_def r_def[symmetric] g_def[symmetric] fr_def[symmetric]
    using a c d e by blast
qed

text \<open>
  The array \<open>words\<close> of \<open>_get_mnemonic\<close> is left behind exactly when the function
  returns after declaring it. A cancel returns false from the loop with the array as it
  was when the entry was asked for: every word accepted so far is still in its slot.
\<close>

lemma words_after_returned:
  assumes "words_after_get_mnemonic env script = Some ws"
  shows "\<exists>b. fst (get_mnemonic env script mout w) = Returned b"
proof -
  from assms obtain choice n where
    ld: "list_all (\<lambda>i. keystore_get_bip39_word env i \<noteq> None) [0..<BIP39_WORDLIST_LEN]"
    and ch: "number_of_words_choice script = Some choice" "pick_number_of_words choice = Inr n"
    and ex: "fst (word_loop n (replicate WORKFLOW_RESTORE_FROM_MNEMONIC_MAX_WORDS []) 0
                   (word_inputs script) []) = Words_cancel ws
             \<or> fst (word_loop n (replicate WORKFLOW_RESTORE_FROM_MNEMONIC_MAX_WORDS []) 0
                   (word_inputs script) []) = Words_complete ws"
    by (auto simp: words_after_get_mnemonic_def
             split: if_splits option.splits sum.splits word_loop_exit.splits)
  from get_mnemonic_by_loop[OF ch, of env mout w "[]"] ld ex
  show ?thesis by auto
qed

lemma cancel_leaves_entered_words:
  assumes ld: "list_all (\<lambda>i. keystore_get_bip39_word env i \<noteq> None) [0..<BIP39_WORDLIST_LEN]"
    and ch: "number_of_words_choice script = Some choice" "pick_number_of_words choice = Inr n"
    and st: "word_loop n (replicate WORKFLOW_RESTORE_FROM_MNEMONIC_MAX_WORDS []) 0 pre []
               = (Words_waiting p ws, calls)"
    and inp: "word_inputs script = pre @ WORKFLOW_TRINARY_INPUT_RESULT_CANCEL # rest"
  shows "words_after_get_mnemonic env script = Some ws"
    and "fst (workflow_restore_from_mnemonic env APP_U2F request script w) = Returned False"
    and "fst (snd (workflow_restore_from_mnemonic env APP_U2F request script w))
           = \<lparr>mnemonic = [], seed = None, password = None\<rparr>"
proof -
  have lp: "fst (word_loop n (replicate WORKFLOW_RESTORE_FROM_MNEMONIC_MAX_WORDS []) 0
                   (word_inputs script) []) = Words_cancel ws"
    using word_loop_resume[OF st, of WORKFLOW_TRINARY_INPUT_RESULT_CANCEL rest] inp by simp
  show "words_after_get_mnemonic env script = Some ws"
    using ld ch lp by (simp add: words_after_get_mnemonic_def)
  from get_mnemonic_by_loop[OF ch, of env "[]" w "[]"] ld lp
  have g: "fst (get_mnemonic env script [] w) = Returned False" by simp
  then have ng: "fst (get_mnemonic env script [] w) \<noteq> Returned True" by simp
  from workflow_no_mnemonic(1,2)[OF ng, of APP_U2F request] g
  show "fst (workflow_restore_from_mnemonic env APP_U2F request script w) = Returned False"
    and "fst (snd (workflow_restore_from_mnemonic env APP_U2F request script w))
           = \<lparr>mnemonic = [], seed = None, password = None\<rparr>"
    by simp_all
qed

text \<open>
  Claim C3 does not hold of the code. The user chooses twelve words, enters "abandon" and
  cancels at the second word. The call returns false and its three buffers hold no
  secret, but the array \<open>words\<close> of \<open>_get_mnemonic\<close> (lines 103 to 104), which holds the
  words of the mnemonic while they are entered, has no cleanup and is not overwritten:
  when the call has returned, its first slot still holds "abandon".
\<close>

theorem entered_words_left_after_cancel:
  "fst (workflow_restore_from_mnemonic
      \<lparr>WORKFLOW_TRINARY_INPUT_MAX_WORD_LENGTH = 8,
       keystore_get_bip39_word = (\<lambda>i. Some ''word''),
       keystore_bip39_mnemonic_to_seed = (\<lambda>m. (True, replicate 32 0, 16)),
       keystore_encrypt_and_store_seed = (\<lambda>s l p. True),
       workflow_confirm_time = (\<lambda>t z b. True),
       securechip_u2f_counter_set = (\<lambda>t. True),
       memory_set_initialized = True,
       keystore_unlock = (\<lambda>p. KEYSTORE_OK)\<rparr> False
      \<lparr>timestamp = 0, timezone_offset = 0\<rparr>
      \<lparr>number_of_words_choice = Some TRINARY_CHOICE_LEFT,
       word_inputs = [WORKFLOW_TRINARY_INPUT_RESULT_OK ''abandon'', WORKFLOW_TRINARY_INPUT_RESULT_CANCEL],
       password_inputs = []\<rparr>
      \<lparr>ui = \<lparr>answers = [], shown = []\<rparr>, statuses = [], word_calls = [],
       stored_seed = None, initialized = False, u2f_counter = None,
       unlock_bip39_started = False\<rparr>) = Returned False
   \<and> fst (snd (workflow_restore_from_mnemonic
      \<lparr>WORKFLOW_TRINARY_INPUT_MAX_WORD_LENGTH = 8,
       keystore_get_bip39_word = (\<lambda>i. Some ''word''),
       keystore_bip39_mnemonic_to_seed = (\<lambda>m. (True, replicate 32 0, 16)),
       keystore_encrypt_and_store_seed = (\<lambda>s l p. True),
       workflow_confirm_time = (\<lambda>t z b. True),
       securechip_u2f_counter_set = (\<lambda>t. True),
       memory_set_initialized = True,
       keystore_unlock = (\<lambda>p. KEYSTORE_OK)\<rparr> False
      \<lparr>timestamp = 0, timezone_offset = 0\<rparr>
      \<lparr>number_of_words_choice = Some TRINARY_CHOICE_LEFT,
       word_inputs = [WORKFLOW_TRINARY_INPUT_RESULT_OK ''abandon'', WORKFLOW_TRINARY_INPUT_RESULT_CANCEL],
       password_inputs = []\<rparr>
      \<lparr>ui = \<lparr>answers = [], shown = []\<rparr>, statuses = [], word_calls = [],
       stored_seed = None, initialized = False, u2f_counter = None,
       unlock_bip39_started = False\<rparr>))
       = \<lparr>mnemonic = [], seed = None, password = None\<rparr>
   \<and> words_after_get_mnemonic
      \<lparr>WORKFLOW_TRINARY_INPUT_MAX_WORD_LENGTH = 8,
       keystore_get_bip39_word = (\<lambda>i. Some ''word''),
       keystore_bip39_mnemonic_to_seed = (\<lambda>m. (True, replicate 32 0, 16)),
       keystore_encrypt_and_store_seed = (\<lambda>s l p. True),
       workflow_confirm_time = (\<lambda>t z b. True),
       securechip_u2f_counter_set = (\<lambda>t. True),
       memory_set_initialized = True,
       keystore_unlock = (\<lambda>p. KEYSTORE_OK)\<rparr>
      \<lparr>number_of_words_choice = Some TRINARY_CHOICE_LEFT,
       word_inputs = [WORKFLOW_TRINARY_INPUT_RESULT_OK ''abandon'', WORKFLOW_TRINARY_INPUT_RESULT_CANCEL],
       password_inputs = []\<rparr>
       = Some (''abandon'' # replicate 23 [])"
proof -
  let ?env = "\<lparr>WORKFLOW_TRINARY_INPUT_MAX_WORD_LENGTH = 8,
       keystore_get_bip39_word = (\<lambda>i. Some ''word''),
       keystore_bip39_mnemonic_to_seed = (\<lambda>m. (True, replicate 32 0, 16)),
       keystore_encrypt_and_store_seed = (\<lambda>s l p. True),
       workflow_confirm_time = (\<lambda>t z b. True),
       securechip_u2f_counter_set = (\<lambda>t. True),
       memory_set_initialized = True,
       keystore_unlock = (\<lambda>p. KEYSTORE_OK)\<rparr>"
  let ?req = "\<lparr>timestamp = 0, timezone_offset = 0\<rparr>"
  let ?s = "\<lparr>number_of_words_choice = Some TRINARY_CHOICE_LEFT,
       word_inputs = [WORKFLOW_TRINARY_INPUT_RESULT_OK ''abandon'', WORKFLOW_TRINARY_INPUT_RESULT_CANCEL],
       password_inputs = []\<rparr>"
  let ?w = "\<lparr>ui = \<lparr>answers = [], shown = []\<rparr>, statuses = [], word_calls = [],
       stored_seed = None, initialized = False, u2f_counter = None,
       unlock_bip39_started = False\<rparr>"
  have g: "fst (get_mnemonic ?env ?s [] ?w) = Returned False"
    by (simp add: get_mnemonic_def list_all_iff pick_number_of_words_def
        WORKFLOW_RESTORE_FROM_MNEMONIC_MAX_WORDS_def Let_def)
  then have ng: "fst (get_mnemonic ?env ?s [] ?w) \<noteq> Returned True" by simp
  have slots: "(replicate 24 [])[0 := ''abandon''] = ''abandon'' # replicate 23 []"
    by (simp add: numeral_eq_Suc)
  have ws: "words_after_get_mnemonic ?env ?s = Some (''abandon'' # replicate 23 [])"
    by (simp add: words_after_get_mnemonic_def list_all_iff pick_number_of_words_def
        WORKFLOW_RESTORE_FROM_MNEMONIC_MAX_WORDS_def Let_def slots)
  from workflow_no_mnemonic(1,2)[OF ng, of False ?req] g ws
  show ?thesis by simp
qed

end
